theory Spec2Isabelle
  imports Complex_Main
begin

section \<open>Python values, exceptions and the trace of outside calls\<close>

text \<open>
  The module \<^verbatim>\<open>pyopenjtalk/__init__.py\<close> is a layer of guards over three outside
  collaborators: the operating system (file existence, download, tar extraction, file
  removal), the two native engine classes \<^verbatim>\<open>OpenJTalk\<close> and \<^verbatim>\<open>HTSEngine\<close>, and the
  optional package \<^verbatim>\<open>marine\<close>. The values that travel through it (texts, feature
  lists, label lists, speeds, waveforms) are Python objects; the module looks at exactly one
  of them, the \<^verbatim>\<open>labels\<close> argument of \<^verbatim>\<open>synthesize\<close>, and only at its being a tuple
  and at its length.
\<close>

datatype pyval =
    PyNone
  | PyBool bool
  | PyInt int
  | PyFloat real
  | PyStr string
  | PyList "pyval list"
  | PyTuple "pyval list"
  | PyDict "(pyval \<times> pyval) list"

text \<open>An exception is its class name and its message.\<close>

datatype pyexc = PyExc (exc_class: string) (exc_msg: string)

text \<open>
  Every call that leaves the module is recorded, in order, in a trace: output, the
  operating-system calls of the provisioning step, the constructors of the three handles
  (with whether they returned an instance) and the methods invoked on the handles.
\<close>

datatype event =
    Print string
  | Urlretrieve string string
  | Tar_extractall string string
  | Os_remove string
  | New_OpenJTalk string bool
  | New_HTSEngine string bool
  | New_Predictor bool
  | Jt_g2p "pyval list" "(string \<times> pyval) list"
  | Jt_run_frontend pyval
  | Jt_make_label pyval
  | Hts_get_sampling_frequency
  | Hts_set_speed pyval
  | Hts_add_half_tone pyval
  | Hts_synthesize pyval
  | Mar_predict pyval bool

section \<open>What lies outside the module\<close>

text \<open>
  The operating system, the native classes of \<^verbatim>\<open>.openjtalk\<close> and \<^verbatim>\<open>.htsengine\<close>, the
  function \<^verbatim>\<open>merge_njd_marine_features\<close> of \<^verbatim>\<open>.utils\<close> and the package \<^verbatim>\<open>marine\<close>
  are not part of \<^verbatim>\<open>__init__.py\<close>. They are parameters of the model: \<open>'w\<close> is the state
  of the world outside the process (disk and network), \<open>'jt\<close>, \<open>'hts\<close> and \<open>'mar\<close> are
  the internal states of an analyzer, a synthesizer and a predictor instance. A method of a
  handle returns its result (or raises) and the instance's new internal state; a
  constructor reads the world and returns an instance or raises.
\<close>

record ('w, 'jt, 'hts, 'mar) externals =
  pkg_dir :: string
  environ_OPEN_JTALK_DICT_DIR :: "string option"
  exists :: "string \<Rightarrow> 'w \<Rightarrow> bool"
  urlretrieve :: "string \<Rightarrow> string \<Rightarrow> 'w \<Rightarrow> pyexc option \<times> 'w"
  tar_extractall :: "string \<Rightarrow> string \<Rightarrow> 'w \<Rightarrow> pyexc option \<times> 'w"
  os_remove :: "string \<Rightarrow> 'w \<Rightarrow> pyexc option \<times> 'w"
  OpenJTalk :: "string \<Rightarrow> 'w \<Rightarrow> pyexc + 'jt"
  jt_g2p :: "'jt \<Rightarrow> pyval list \<Rightarrow> (string \<times> pyval) list \<Rightarrow> (pyexc + pyval) \<times> 'jt"
  jt_run_frontend :: "'jt \<Rightarrow> pyval \<Rightarrow> (pyexc + pyval) \<times> 'jt"
  jt_make_label :: "'jt \<Rightarrow> pyval \<Rightarrow> (pyexc + pyval) \<times> 'jt"
  HTSEngine :: "string \<Rightarrow> 'w \<Rightarrow> pyexc + 'hts"
  hts_get_sampling_frequency :: "'hts \<Rightarrow> (pyexc + pyval) \<times> 'hts"
  hts_set_speed :: "'hts \<Rightarrow> pyval \<Rightarrow> (pyexc + pyval) \<times> 'hts"
  hts_add_half_tone :: "'hts \<Rightarrow> pyval \<Rightarrow> (pyexc + pyval) \<times> 'hts"
  hts_synthesize :: "'hts \<Rightarrow> pyval \<Rightarrow> (pyexc + pyval) \<times> 'hts"
  import_Predictor :: "'w \<Rightarrow> pyexc option"
  Predictor :: "'w \<Rightarrow> pyexc + 'mar"
  import_convert :: "'w \<Rightarrow> pyexc option"
  convert_njd_feature_to_marine_feature :: "pyval \<Rightarrow> pyexc + pyval"
  mar_predict :: "'mar \<Rightarrow> pyval \<Rightarrow> bool \<Rightarrow> (pyexc + pyval) \<times> 'mar"
  merge_njd_marine_features :: "pyval \<Rightarrow> pyval \<Rightarrow> pyexc + pyval"

section \<open>The module's globals\<close>

text \<open>
  The four module-level variables the functions rebind (lines 26 and 39 to 44), the world
  and the trace.
\<close>

record ('w, 'jt, 'hts, 'mar) state =
  OPEN_JTALK_DICT_DIR :: string
  global_jtalk :: "'jt option"
  global_htsengine :: "'hts option"
  global_marine :: "'mar option"
  world :: 'w
  trace :: "event list"

text \<open>
  A statement of the module maps a state to a result, an exception or a value, and the
  state it leaves behind. The state survives an exception: a global that was bound before
  the \<^verbatim>\<open>raise\<close> stays bound.
\<close>

type_synonym ('a, 'w, 'jt, 'hts, 'mar) py =
  "('w, 'jt, 'hts, 'mar) state \<Rightarrow> (pyexc + 'a) \<times> ('w, 'jt, 'hts, 'mar) state"

definition py_return :: "'a \<Rightarrow> ('a, 'w, 'jt, 'hts, 'mar) py" where
  "py_return x = (\<lambda>s. (Inr x, s))"

definition py_bind ::
  "('a, 'w, 'jt, 'hts, 'mar) py \<Rightarrow> ('a \<Rightarrow> ('b, 'w, 'jt, 'hts, 'mar) py) \<Rightarrow> ('b, 'w, 'jt, 'hts, 'mar) py"
where
  "py_bind m f = (\<lambda>s. case m s of (Inl e, s') \<Rightarrow> (Inl e, s') | (Inr x, s') \<Rightarrow> f x s')"

definition py_lift :: "pyexc + 'a \<Rightarrow> ('a, 'w, 'jt, 'hts, 'mar) py" where
  "py_lift r = (\<lambda>s. (r, s))"

definition emit :: "event \<Rightarrow> (unit, 'w, 'jt, 'hts, 'mar) py" where
  "emit ev = (\<lambda>s. (Inr (), s\<lparr>trace := trace s @ [ev]\<rparr>))"

text \<open>A call on the operating system: recorded, then run on the world.\<close>

definition os_call ::
  "event \<Rightarrow> ('w \<Rightarrow> pyexc option \<times> 'w) \<Rightarrow> (unit, 'w, 'jt, 'hts, 'mar) py"
where
  "os_call ev f = (\<lambda>s.
     case f (world s) of
       (None, w') \<Rightarrow> (Inr (), s\<lparr>world := w', trace := trace s @ [ev]\<rparr>)
     | (Some e, w') \<Rightarrow> (Inl e, s\<lparr>world := w', trace := trace s @ [ev]\<rparr>))"

text \<open>
  A method call on one of the three global handles. On an unbound global Python raises
  \<^verbatim>\<open>AttributeError\<close> (\<^verbatim>\<open>None\<close> has no such method).
\<close>

definition none_has_no_attribute :: pyexc where
  "none_has_no_attribute = PyExc ''AttributeError'' ''NoneType object has no such attribute''"

definition jtalk_call ::
  "event \<Rightarrow> ('jt \<Rightarrow> (pyexc + pyval) \<times> 'jt) \<Rightarrow> (pyval, 'w, 'jt, 'hts, 'mar) py"
where
  "jtalk_call ev f = (\<lambda>s.
     case global_jtalk s of
       None \<Rightarrow> (Inl none_has_no_attribute, s)
     | Some h \<Rightarrow> (fst (f h), s\<lparr>global_jtalk := Some (snd (f h)), trace := trace s @ [ev]\<rparr>))"

definition htsengine_call ::
  "event \<Rightarrow> ('hts \<Rightarrow> (pyexc + pyval) \<times> 'hts) \<Rightarrow> (pyval, 'w, 'jt, 'hts, 'mar) py"
where
  "htsengine_call ev f = (\<lambda>s.
     case global_htsengine s of
       None \<Rightarrow> (Inl none_has_no_attribute, s)
     | Some h \<Rightarrow> (fst (f h), s\<lparr>global_htsengine := Some (snd (f h)), trace := trace s @ [ev]\<rparr>))"

definition marine_call ::
  "event \<Rightarrow> ('mar \<Rightarrow> (pyexc + pyval) \<times> 'mar) \<Rightarrow> (pyval, 'w, 'jt, 'hts, 'mar) py"
where
  "marine_call ev f = (\<lambda>s.
     case global_marine s of
       None \<Rightarrow> (Inl none_has_no_attribute, s)
     | Some h \<Rightarrow> (fst (f h), s\<lparr>global_marine := Some (snd (f h)), trace := trace s @ [ev]\<rparr>))"

section \<open>Module level: paths and the initial state\<close>

text \<open>
  \<^verbatim>\<open>pkg_resources.resource_filename(__name__, name)\<close> joins the package directory and
  the name.
\<close>

definition resource_filename :: "string \<Rightarrow> string \<Rightarrow> string" where
  "resource_filename pkg name = pkg @ ''/'' @ name"

definition dict_download_url :: string where
  "dict_download_url = ''https://github.com/r9y9/open_jtalk/releases/download/v1.11.1''"

definition DICT_URL :: string where
  "DICT_URL = dict_download_url @ ''/open_jtalk_dic_utf_8-1.11.tar.gz''"

definition default_dict_dir :: "('w, 'jt, 'hts, 'mar) externals \<Rightarrow> string" where
  "default_dict_dir X = resource_filename (pkg_dir X) ''open_jtalk_dic_utf_8-1.11''"

definition DEFAULT_HTS_VOICE :: "('w, 'jt, 'hts, 'mar) externals \<Rightarrow> string" where
  "DEFAULT_HTS_VOICE X = resource_filename (pkg_dir X) ''htsvoice/mei_normal.htsvoice''"

text \<open>
  The state right after import (lines 26 to 44): \<^verbatim>\<open>os.environ.get\<close> with the packaged
  directory as its default, and the three handles unbound.
\<close>

definition module_init ::
  "('w, 'jt, 'hts, 'mar) externals \<Rightarrow> 'w \<Rightarrow> ('w, 'jt, 'hts, 'mar) state"
where
  "module_init X w =
     \<lparr> OPEN_JTALK_DICT_DIR =
         (case environ_OPEN_JTALK_DICT_DIR X of Some p \<Rightarrow> p | None \<Rightarrow> default_dict_dir X),
       global_jtalk = None,
       global_htsengine = None,
       global_marine = None,
       world = w,
       trace = [] \<rparr>"

section \<open>The provisioning step\<close>

text \<open>
  \<^verbatim>\<open>_extract_dic\<close> (lines 55 to 74): print, download to \<^verbatim>\<open>dic.tar.gz\<close>, print, extract
  into the package directory, rebind \<^verbatim>\<open>OPEN_JTALK_DICT_DIR\<close> to the packaged directory,
  remove the archive. The progress bar only draws. Any of the three operating-system calls
  can raise, and what was done before stays done.
\<close>

definition extract_dic :: "('w, 'jt, 'hts, 'mar) externals \<Rightarrow> (unit, 'w, 'jt, 'hts, 'mar) py" where
  "extract_dic X =
     (let filename = resource_filename (pkg_dir X) ''dic.tar.gz'' in
      py_bind (emit (Print (''Downloading: \"'' @ DICT_URL @ ''\"''))) (\<lambda>_.
      py_bind (os_call (Urlretrieve DICT_URL filename) (urlretrieve X DICT_URL filename)) (\<lambda>_.
      py_bind (emit (Print (''Extracting tar file '' @ filename))) (\<lambda>_.
      py_bind (os_call (Tar_extractall filename (resource_filename (pkg_dir X) ''''))
                 (tar_extractall X filename (resource_filename (pkg_dir X) ''''))) (\<lambda>_.
      py_bind (\<lambda>s. (Inr (), s\<lparr>OPEN_JTALK_DICT_DIR := default_dict_dir X\<rparr>)) (\<lambda>_.
      os_call (Os_remove filename) (os_remove X filename)))))))"

text \<open>\<^verbatim>\<open>_lazy_init\<close> (lines 77 to 79).\<close>

definition lazy_init :: "('w, 'jt, 'hts, 'mar) externals \<Rightarrow> (unit, 'w, 'jt, 'hts, 'mar) py" where
  "lazy_init X = (\<lambda>s.
     if \<not> exists X (OPEN_JTALK_DICT_DIR s) (world s) then extract_dic X s else (Inr (), s))"

section \<open>The handle guards\<close>

text \<open>
  The same three lines open \<^verbatim>\<open>g2p\<close> (98 to 100), \<^verbatim>\<open>run_frontend\<close> (205 to 207) and
  \<^verbatim>\<open>make_label\<close> (221 to 223):
  \<^verbatim>\<open>if _global_jtalk is None: _lazy_init(); _global_jtalk = OpenJTalk(dn_mecab=OPEN_JTALK_DICT_DIR)\<close>.
\<close>

definition new_OpenJTalk :: "('w, 'jt, 'hts, 'mar) externals \<Rightarrow> (unit, 'w, 'jt, 'hts, 'mar) py" where
  "new_OpenJTalk X = (\<lambda>s.
     case OpenJTalk X (OPEN_JTALK_DICT_DIR s) (world s) of
       Inl e \<Rightarrow> (Inl e, s\<lparr>trace := trace s @ [New_OpenJTalk (OPEN_JTALK_DICT_DIR s) False]\<rparr>)
     | Inr h \<Rightarrow> (Inr (), s\<lparr>global_jtalk := Some h,
                            trace := trace s @ [New_OpenJTalk (OPEN_JTALK_DICT_DIR s) True]\<rparr>))"

definition guard_jtalk :: "('w, 'jt, 'hts, 'mar) externals \<Rightarrow> (unit, 'w, 'jt, 'hts, 'mar) py" where
  "guard_jtalk X = (\<lambda>s.
     if global_jtalk s = None then py_bind (lazy_init X) (\<lambda>_. new_OpenJTalk X) s
     else (Inr (), s))"

text \<open>Lines 167 and 168 of \<^verbatim>\<open>synthesize\<close>.\<close>

definition guard_htsengine :: "('w, 'jt, 'hts, 'mar) externals \<Rightarrow> (unit, 'w, 'jt, 'hts, 'mar) py" where
  "guard_htsengine X = (\<lambda>s.
     if global_htsengine s = None then
       (case HTSEngine X (DEFAULT_HTS_VOICE X) (world s) of
          Inl e \<Rightarrow> (Inl e, s\<lparr>trace := trace s @ [New_HTSEngine (DEFAULT_HTS_VOICE X) False]\<rparr>)
        | Inr h \<Rightarrow> (Inr (), s\<lparr>global_htsengine := Some h,
                               trace := trace s @ [New_HTSEngine (DEFAULT_HTS_VOICE X) True]\<rparr>))
     else (Inr (), s))"

text \<open>
  Lines 116 to 121 of \<^verbatim>\<open>estimate_accent\<close>: the \<^verbatim>\<open>try\<close> holds the import alone, its
  handler catches \<^verbatim>\<open>BaseException\<close>, and the constructor call comes after the handler.
\<close>

definition install_marine :: pyexc where
  "install_marine = PyExc ''ImportError'' ''Please install marine by `pip install pyopenjtalk[marine]`''"

definition guard_marine :: "('w, 'jt, 'hts, 'mar) externals \<Rightarrow> (unit, 'w, 'jt, 'hts, 'mar) py" where
  "guard_marine X = (\<lambda>s.
     if global_marine s = None then
       (case import_Predictor X (world s) of
          Some e \<Rightarrow> (Inl install_marine, s)
        | None \<Rightarrow>
            (case Predictor X (world s) of
               Inl e \<Rightarrow> (Inl e, s\<lparr>trace := trace s @ [New_Predictor False]\<rparr>)
             | Inr h \<Rightarrow> (Inr (), s\<lparr>global_marine := Some h,
                                    trace := trace s @ [New_Predictor True]\<rparr>)))
     else (Inr (), s))"

section \<open>The public functions\<close>

text \<open>\<^verbatim>\<open>g2p(*args, **kwargs)\<close> (lines 82 to 101).\<close>

definition g2p ::
  "('w, 'jt, 'hts, 'mar) externals \<Rightarrow> pyval list \<Rightarrow> (string \<times> pyval) list \<Rightarrow>
   (pyval, 'w, 'jt, 'hts, 'mar) py"
where
  "g2p X args kwargs =
     py_bind (guard_jtalk X) (\<lambda>_.
     jtalk_call (Jt_g2p args kwargs) (\<lambda>h. jt_g2p X h args kwargs))"

text \<open>\<^verbatim>\<open>run_frontend(text)\<close> (lines 195 to 208).\<close>

definition run_frontend ::
  "('w, 'jt, 'hts, 'mar) externals \<Rightarrow> pyval \<Rightarrow> (pyval, 'w, 'jt, 'hts, 'mar) py"
where
  "run_frontend X text =
     py_bind (guard_jtalk X) (\<lambda>_.
     jtalk_call (Jt_run_frontend text) (\<lambda>h. jt_run_frontend X h text))"

text \<open>\<^verbatim>\<open>make_label(njd_features)\<close> (lines 211 to 224).\<close>

definition make_label ::
  "('w, 'jt, 'hts, 'mar) externals \<Rightarrow> pyval \<Rightarrow> (pyval, 'w, 'jt, 'hts, 'mar) py"
where
  "make_label X njd_features =
     py_bind (guard_jtalk X) (\<lambda>_.
     jtalk_call (Jt_make_label njd_features) (\<lambda>h. jt_make_label X h njd_features))"

text \<open>
  \<^verbatim>\<open>estimate_accent(njd_features)\<close> (lines 104 to 129). The second import (line 122) runs
  on every call and stands outside any \<^verbatim>\<open>try\<close>.
\<close>

definition estimate_accent ::
  "('w, 'jt, 'hts, 'mar) externals \<Rightarrow> pyval \<Rightarrow> (pyval, 'w, 'jt, 'hts, 'mar) py"
where
  "estimate_accent X njd_features =
     py_bind (guard_marine X) (\<lambda>_.
     py_bind (\<lambda>s. (case import_convert X (world s) of Some e \<Rightarrow> Inl e | None \<Rightarrow> Inr (), s)) (\<lambda>_.
     py_bind (py_lift (convert_njd_feature_to_marine_feature X njd_features)) (\<lambda>marine_feature.
     py_bind (marine_call (Mar_predict (PyList [marine_feature]) True)
                (\<lambda>h. mar_predict X h (PyList [marine_feature]) True)) (\<lambda>marine_results.
     py_lift (merge_njd_marine_features X njd_features marine_results)))))"

text \<open>\<^verbatim>\<open>extract_fullcontext(text, run_marine=False)\<close> (lines 132 to 148).\<close>

definition extract_fullcontext ::
  "('w, 'jt, 'hts, 'mar) externals \<Rightarrow> pyval \<Rightarrow> bool \<Rightarrow> (pyval, 'w, 'jt, 'hts, 'mar) py"
where
  "extract_fullcontext X text run_marine =
     py_bind (run_frontend X text) (\<lambda>njd_features.
     py_bind (if run_marine then estimate_accent X njd_features else py_return njd_features)
       (\<lambda>njd_features.
     make_label X njd_features))"

text \<open>
  Lines 163 and 164: \<^verbatim>\<open>if isinstance(labels, tuple) and len(labels) == 2: labels = labels[1]\<close>.
\<close>

definition unwrap_labels :: "pyval \<Rightarrow> pyval" where
  "unwrap_labels labels =
     (case labels of
        PyTuple xs \<Rightarrow> if length xs = 2 then xs ! 1 else labels
      | _ \<Rightarrow> labels)"

text \<open>
  \<^verbatim>\<open>synthesize(labels, speed=1.0, half_tone=0.0)\<close> (lines 151 to 172). The returned pair
  is the waveform and the sampling frequency read before the two setters ran.
\<close>

definition synthesize ::
  "('w, 'jt, 'hts, 'mar) externals \<Rightarrow> pyval \<Rightarrow> pyval \<Rightarrow> pyval \<Rightarrow> (pyval, 'w, 'jt, 'hts, 'mar) py"
where
  "synthesize X labels speed half_tone =
     (let labels = unwrap_labels labels in
      py_bind (guard_htsengine X) (\<lambda>_.
      py_bind (htsengine_call Hts_get_sampling_frequency (hts_get_sampling_frequency X)) (\<lambda>sr.
      py_bind (htsengine_call (Hts_set_speed speed) (\<lambda>h. hts_set_speed X h speed)) (\<lambda>_.
      py_bind (htsengine_call (Hts_add_half_tone half_tone)
                 (\<lambda>h. hts_add_half_tone X h half_tone)) (\<lambda>_.
      py_bind (htsengine_call (Hts_synthesize labels) (\<lambda>h. hts_synthesize X h labels)) (\<lambda>wave.
      py_return (PyTuple [wave, sr])))))))"

text \<open>\<^verbatim>\<open>tts(text, speed=1.0, half_tone=0.0, run_marine=False)\<close> (lines 175 to 192).\<close>

definition tts ::
  "('w, 'jt, 'hts, 'mar) externals \<Rightarrow> pyval \<Rightarrow> pyval \<Rightarrow> pyval \<Rightarrow> bool \<Rightarrow>
   (pyval, 'w, 'jt, 'hts, 'mar) py"
where
  "tts X text speed half_tone run_marine =
     py_bind (extract_fullcontext X text run_marine) (\<lambda>labels.
     synthesize X labels speed half_tone)"

text \<open>
  The composition the specification names for the pipeline without the accent model:
  \<^verbatim>\<open>synthesize(make_label(run_frontend(text)), speed, half_tone)\<close>.
\<close>

definition tts_composition ::
  "('w, 'jt, 'hts, 'mar) externals \<Rightarrow> pyval \<Rightarrow> pyval \<Rightarrow> pyval \<Rightarrow> (pyval, 'w, 'jt, 'hts, 'mar) py"
where
  "tts_composition X text speed half_tone =
     py_bind (run_frontend X text) (\<lambda>features.
     py_bind (make_label X features) (\<lambda>labels.
     synthesize X labels speed half_tone))"

section \<open>Sequences of calls\<close>

text \<open>
  A process calls the seven public functions one after the other, in any order and with any
  arguments. A call that raises leaves its state behind like any other, and the next call
  starts from it.
\<close>

datatype call =
    G2p "pyval list" "(string \<times> pyval) list"
  | Estimate_accent pyval
  | Extract_fullcontext pyval bool
  | Synthesize pyval pyval pyval
  | Tts pyval pyval pyval bool
  | Run_frontend pyval
  | Make_label pyval

fun perform ::
  "('w, 'jt, 'hts, 'mar) externals \<Rightarrow> call \<Rightarrow> (pyval, 'w, 'jt, 'hts, 'mar) py"
where
  "perform X (G2p args kwargs) = g2p X args kwargs"
| "perform X (Estimate_accent njd_features) = estimate_accent X njd_features"
| "perform X (Extract_fullcontext text run_marine) = extract_fullcontext X text run_marine"
| "perform X (Synthesize labels speed half_tone) = synthesize X labels speed half_tone"
| "perform X (Tts text speed half_tone run_marine) = tts X text speed half_tone run_marine"
| "perform X (Run_frontend text) = run_frontend X text"
| "perform X (Make_label njd_features) = make_label X njd_features"

fun run ::
  "('w, 'jt, 'hts, 'mar) externals \<Rightarrow> call list \<Rightarrow> ('w, 'jt, 'hts, 'mar) state \<Rightarrow>
   ('w, 'jt, 'hts, 'mar) state"
where
  "run X [] s = s"
| "run X (c # cs) s = run X cs (snd (perform X c s))"

text \<open>The calls that go through the analyzer handle.\<close>

fun analyzer_backed :: "call \<Rightarrow> bool" where
  "analyzer_backed (Synthesize labels speed half_tone) = False"
| "analyzer_backed (Estimate_accent njd_features) = False"
| "analyzer_backed _ = True"

text \<open>What a call adds to the trace.\<close>

definition events_of ::
  "('a, 'w, 'jt, 'hts, 'mar) py \<Rightarrow> ('w, 'jt, 'hts, 'mar) state \<Rightarrow> event list"
where
  "events_of m s = drop (length (trace s)) (trace (snd (m s)))"

text \<open>Readings of a trace: download attempts and constructor calls.\<close>

fun is_download :: "event \<Rightarrow> bool" where
  "is_download (Urlretrieve url filename) = True"
| "is_download _ = False"

fun is_new_jtalk :: "event \<Rightarrow> bool" where
  "is_new_jtalk (New_OpenJTalk d ok) = True"
| "is_new_jtalk _ = False"

fun is_new_htsengine :: "event \<Rightarrow> bool" where
  "is_new_htsengine (New_HTSEngine v ok) = True"
| "is_new_htsengine _ = False"

fun built_jtalk :: "event \<Rightarrow> bool" where
  "built_jtalk (New_OpenJTalk d ok) = ok"
| "built_jtalk _ = False"

fun built_htsengine :: "event \<Rightarrow> bool" where
  "built_htsengine (New_HTSEngine v ok) = ok"
| "built_htsengine _ = False"

section \<open>A concrete platform\<close>

text \<open>
  The theorems about the module hold for every platform, that is for every value of the
  record of externals. One concrete platform serves to evaluate the model and the
  theorems on concrete inputs: a world that is the list of the paths that exist, a
  network that is up, an archive that holds the dictionary directory, an analyzer that
  needs its dictionary directory to exist, a synthesizer whose internal state is its speed
  and its half-tone and whose waveform shows both. The package \<^verbatim>\<open>marine\<close> is installed
  when the path \<^verbatim>\<open>marine\<close> exists, and its predictor needs the path \<^verbatim>\<open>marine/model\<close>.
\<close>

definition no_marine :: pyexc where
  "no_marine = PyExc ''ModuleNotFoundError'' ''No module named marine''"

definition demo ::
  "string option \<Rightarrow> (string list, string, pyval \<times> pyval, unit) externals"
where
  "demo env =
     \<lparr> pkg_dir = ''/pkg'',
       environ_OPEN_JTALK_DICT_DIR = env,
       exists = (\<lambda>p w. p \<in> set w),
       urlretrieve = (\<lambda>url filename w. (None, filename # w)),
       tar_extractall = (\<lambda>filename path w. (None, (path @ ''open_jtalk_dic_utf_8-1.11'') # w)),
       os_remove = (\<lambda>filename w. (None, removeAll filename w)),
       OpenJTalk = (\<lambda>d w. if d \<in> set w then Inr d
                           else Inl (PyExc ''RuntimeError'' ''Failed to initalize Mecab'')),
       jt_g2p = (\<lambda>h args kwargs. (Inr (PyStr ''a''), h)),
       jt_run_frontend = (\<lambda>h text. (Inr (PyList [text]), h)),
       jt_make_label = (\<lambda>h njd_features. (Inr njd_features, h)),
       HTSEngine = (\<lambda>v w. Inr (PyFloat 1, PyFloat 0)),
       hts_get_sampling_frequency = (\<lambda>h. (Inr (PyInt 48000), h)),
       hts_set_speed = (\<lambda>h v. (Inr PyNone, (v, snd h))),
       hts_add_half_tone = (\<lambda>h v. (Inr PyNone, (fst h, v))),
       hts_synthesize = (\<lambda>h labels. (Inr (PyList [fst h, snd h, labels]), h)),
       import_Predictor = (\<lambda>w. if ''marine'' \<in> set w then None else Some no_marine),
       Predictor = (\<lambda>w. if ''marine/model'' \<in> set w then Inr ()
                          else Inl (PyExc ''FileNotFoundError'' ''marine/model'')),
       import_convert = (\<lambda>w. if ''marine'' \<in> set w then None else Some no_marine),
       convert_njd_feature_to_marine_feature = (\<lambda>njd_features. Inr njd_features),
       mar_predict = (\<lambda>h features fmt. (Inr features, h)),
       merge_njd_marine_features = (\<lambda>njd_features marine_results. Inr njd_features) \<rparr>"

text \<open>
  Three variants of the platform: one where \<^verbatim>\<open>marine\<close> cannot be imported whatever is
  on disk, one whose network is down, and one where \<^verbatim>\<open>marine.predict\<close> imports but
  \<^verbatim>\<open>marine.utils\<close> does not.
\<close>

definition demo_offline ::
  "string option \<Rightarrow> (string list, string, pyval \<times> pyval, unit) externals"
where
  "demo_offline env =
     (demo env)\<lparr> import_Predictor := (\<lambda>w. Some no_marine),
                 import_convert := (\<lambda>w. Some no_marine) \<rparr>"

definition demo_down ::
  "(string list, string, pyval \<times> pyval, unit) externals"
where
  "demo_down =
     (demo None)\<lparr> urlretrieve :=
       (\<lambda>url filename w. (Some (PyExc ''URLError'' ''network is unreachable''), w)) \<rparr>"

definition demo_partial ::
  "(string list, string, pyval \<times> pyval, unit) externals"
where
  "demo_partial =
     (demo None)\<lparr> import_convert :=
       (\<lambda>w. Some (PyExc ''ModuleNotFoundError'' ''No module named marine.utils'')) \<rparr>"

text \<open>
  A first call of \<^verbatim>\<open>tts\<close> on the concrete platform, started on an empty disk, and a
  sequence of later calls.
\<close>

definition first_run :: "(string list, string, pyval \<times> pyval, unit) state" where
  "first_run =
     run (demo None) [Tts (PyStr ''a'') (PyFloat 2) (PyFloat 0) False] (module_init (demo None) [])"

definition more_calls :: "call list" where
  "more_calls =
     [Run_frontend (PyStr ''b''), Synthesize (PyList [PyStr ''b'']) (PyFloat 1) (PyFloat 0),
      Make_label (PyList []), G2p [PyStr ''b''] [], Tts (PyStr ''c'') (PyFloat 1) (PyFloat 3) False]"

section \<open>Predicates on states\<close>

text \<open>
  What follows defines no behaviour of the module: these are the predicates in which the
  lemmas about it are stated. A triple \<open>triple P m Q E\<close> says that \<open>m\<close>, started in a
  state where \<open>P\<close> holds, leaves a state where \<open>Q\<close> holds when it returns and one where
  \<open>E\<close> holds when it raises.
\<close>

definition triple ::
  "(('w, 'jt, 'hts, 'mar) state \<Rightarrow> bool) \<Rightarrow> ('a, 'w, 'jt, 'hts, 'mar) py \<Rightarrow>
   (('w, 'jt, 'hts, 'mar) state \<Rightarrow> bool) \<Rightarrow> (('w, 'jt, 'hts, 'mar) state \<Rightarrow> bool) \<Rightarrow> bool"
where
  "triple P m Q E =
     (\<forall>s. P s \<longrightarrow> (case fst (m s) of Inl e \<Rightarrow> E (snd (m s)) | Inr x \<Rightarrow> Q (snd (m s))))"

text \<open>
  A step is quiet when it leaves the dictionary directory, the world and the binding of the
  three globals as they are (a handle may change inside) and records no download and no
  constructor call. A predicate is tolerant when quiet steps keep it. The method calls on
  the handles are quiet.
\<close>

definition quiet ::
  "('w, 'jt, 'hts, 'mar) state \<Rightarrow> ('w, 'jt, 'hts, 'mar) state \<Rightarrow> bool"
where
  "quiet s s' =
     (OPEN_JTALK_DICT_DIR s' = OPEN_JTALK_DICT_DIR s \<and> world s' = world s \<and>
      (global_jtalk s' = None) = (global_jtalk s = None) \<and>
      (global_htsengine s' = None) = (global_htsengine s = None) \<and>
      (global_marine s' = None) = (global_marine s = None) \<and>
      filter is_download (trace s') = filter is_download (trace s) \<and>
      filter is_new_jtalk (trace s') = filter is_new_jtalk (trace s) \<and>
      filter is_new_htsengine (trace s') = filter is_new_htsengine (trace s))"

definition tolerant :: "(('w, 'jt, 'hts, 'mar) state \<Rightarrow> bool) \<Rightarrow> bool" where
  "tolerant I = (\<forall>s s'. I s \<and> quiet s s' \<longrightarrow> I s')"

definition quietly :: "('a, 'w, 'jt, 'hts, 'mar) py \<Rightarrow> bool" where
  "quietly m = (\<forall>s. quiet s (snd (m s)))"

definition method_event :: "event \<Rightarrow> bool" where
  "method_event ev = (\<not> is_download ev \<and> \<not> is_new_jtalk ev \<and> \<not> is_new_htsengine ev)"

text \<open>
  A predicate is safe under provisioning when it looks neither at the dictionary directory
  nor at the world, nor at the events other than the constructor calls.
\<close>

definition provision_safe :: "(('w, 'jt, 'hts, 'mar) state \<Rightarrow> bool) \<Rightarrow> bool" where
  "provision_safe I =
     (\<forall>s. I s \<longrightarrow>
        (\<forall>d. I (s\<lparr>OPEN_JTALK_DICT_DIR := d\<rparr>)) \<and>
        (\<forall>w ev. \<not> is_new_jtalk ev \<and> \<not> is_new_htsengine ev \<longrightarrow>
           I (s\<lparr>world := w, trace := trace s @ [ev]\<rparr>)))"

text \<open>
  The invariants of a run: the analyzer is cached (with the constructor calls and the
  downloads made so far), at most one analyzer was built, the same two for the synthesizer,
  the dictionary directory exists, and no predictor is bound.
\<close>

definition jtalk_cached ::
  "event list \<Rightarrow> event list \<Rightarrow> ('w, 'jt, 'hts, 'mar) state \<Rightarrow> bool"
where
  "jtalk_cached a k s =
     (global_jtalk s \<noteq> None \<and> filter is_new_jtalk (trace s) = a \<and>
      filter is_download (trace s) = k)"

definition jtalk_once :: "('w, 'jt, 'hts, 'mar) state \<Rightarrow> bool" where
  "jtalk_once s =
     (length (filter built_jtalk (trace s)) \<le> (if global_jtalk s = None then 0 else 1))"

definition htsengine_cached :: "event list \<Rightarrow> ('w, 'jt, 'hts, 'mar) state \<Rightarrow> bool" where
  "htsengine_cached b s =
     (global_htsengine s \<noteq> None \<and> filter is_new_htsengine (trace s) = b)"

definition htsengine_once :: "('w, 'jt, 'hts, 'mar) state \<Rightarrow> bool" where
  "htsengine_once s =
     (length (filter built_htsengine (trace s)) \<le> (if global_htsengine s = None then 0 else 1))"

definition dict_present ::
  "('w, 'jt, 'hts, 'mar) externals \<Rightarrow> event list \<Rightarrow> ('w, 'jt, 'hts, 'mar) state \<Rightarrow> bool"
where
  "dict_present X k s =
     (exists X (OPEN_JTALK_DICT_DIR s) (world s) \<and> filter is_download (trace s) = k)"

definition marine_unbound :: "('w, 'jt, 'hts, 'mar) state \<Rightarrow> bool" where
  "marine_unbound s = (global_marine s = None)"

text \<open>
  The one download the provisioning step makes; a state that needs provisioning (no
  analyzer, no dictionary directory); and what a call that started in such a state has
  done when it ends: one download more, and at most one constructor call more, on the
  packaged dictionary directory.
\<close>

definition the_download :: "('w, 'jt, 'hts, 'mar) externals \<Rightarrow> event" where
  "the_download X = Urlretrieve DICT_URL (resource_filename (pkg_dir X) ''dic.tar.gz'')"

definition unprovisioned ::
  "('w, 'jt, 'hts, 'mar) externals \<Rightarrow> event list \<Rightarrow> event list \<Rightarrow>
   ('w, 'jt, 'hts, 'mar) state \<Rightarrow> bool"
where
  "unprovisioned X a k s =
     (global_jtalk s = None \<and> \<not> exists X (OPEN_JTALK_DICT_DIR s) (world s) \<and>
      filter is_new_jtalk (trace s) = a \<and> filter is_download (trace s) = k)"

definition provisioned_once ::
  "('w, 'jt, 'hts, 'mar) externals \<Rightarrow> event list \<Rightarrow> event list \<Rightarrow>
   ('w, 'jt, 'hts, 'mar) state \<Rightarrow> bool"
where
  "provisioned_once X a k s =
     (filter is_download (trace s) = k @ [the_download X] \<and>
      (filter is_new_jtalk (trace s) = a \<or>
       filter is_new_jtalk (trace s) = a @ [New_OpenJTalk (default_dict_dir X) False] \<or>
       filter is_new_jtalk (trace s) = a @ [New_OpenJTalk (default_dict_dir X) True]))"

text \<open>
  How far a call of \<^verbatim>\<open>synthesize\<close> that started in \<open>s0\<close> has come: the synthesizer is
  bound, nothing but the synthesizer and the trace has changed, and the trace has grown by
  the constructor call, if one was needed, and the method calls \<open>made\<close>. A call that has
  stopped has either failed to construct the synthesizer or made between one and four of
  its method calls.
\<close>

definition synthesis_at ::
  "('w, 'jt, 'hts, 'mar) externals \<Rightarrow> ('w, 'jt, 'hts, 'mar) state \<Rightarrow> event list \<Rightarrow>
   ('w, 'jt, 'hts, 'mar) state \<Rightarrow> bool"
where
  "synthesis_at X s0 made s =
     (OPEN_JTALK_DICT_DIR s = OPEN_JTALK_DICT_DIR s0 \<and> global_jtalk s = global_jtalk s0 \<and>
      global_marine s = global_marine s0 \<and> world s = world s0 \<and>
      global_htsengine s \<noteq> None \<and>
      (trace s = trace s0 @ made \<or>
       trace s = trace s0 @ New_HTSEngine (DEFAULT_HTS_VOICE X) True # made))"

definition synthesis_stopped ::
  "('w, 'jt, 'hts, 'mar) externals \<Rightarrow> ('w, 'jt, 'hts, 'mar) state \<Rightarrow> event list \<Rightarrow>
   ('w, 'jt, 'hts, 'mar) state \<Rightarrow> bool"
where
  "synthesis_stopped X s0 calls s =
     ((OPEN_JTALK_DICT_DIR s = OPEN_JTALK_DICT_DIR s0 \<and> global_jtalk s = global_jtalk s0 \<and>
       global_marine s = global_marine s0 \<and> world s = world s0 \<and>
       trace s = trace s0 @ [New_HTSEngine (DEFAULT_HTS_VOICE X) False]) \<or>
      synthesis_at X s0 (take 1 calls) s \<or> synthesis_at X s0 (take 2 calls) s \<or>
      synthesis_at X s0 (take 3 calls) s \<or> synthesis_at X s0 (take 4 calls) s)"

section \<open>Laws of sequencing\<close>

lemma py_bind_return: "py_bind (py_return x) f = f x"
  by (simp add: py_bind_def py_return_def)

lemma py_bind_assoc: "py_bind (py_bind m f) g = py_bind m (\<lambda>x. py_bind (f x) g)"
  by (auto simp: py_bind_def fun_eq_iff split: prod.splits sum.splits)

section \<open>The two shapes of the label argument\<close>

text \<open>
  C2. For every label list \<open>L\<close>, every speed and every half-tone, \<^verbatim>\<open>synthesize\<close> called
  on the bare list and \<^verbatim>\<open>synthesize\<close> called on a 2-tuple whose second element is \<open>L\<close>
  give the same result, waveform and sampling frequency, and leave the same state, whatever
  the first element of the tuple, the state before and the native engine are.
\<close>

theorem synthesize_tuple_same:
  "synthesize X (PyTuple [x, PyList L]) speed half_tone s =
   synthesize X (PyList L) speed half_tone s"
  by (simp add: synthesize_def unwrap_labels_def)

section \<open>The pipeline without the accent model\<close>

text \<open>
  C3. For every text, speed and half-tone, \<^verbatim>\<open>tts\<close> with \<^verbatim>\<open>run_marine=False\<close> is the
  composition \<^verbatim>\<open>synthesize(make_label(run_frontend(text)), speed, half_tone)\<close>: the
  same result, the same exception when a step raises, and the same state left behind.
\<close>

theorem tts_is_composition:
  "tts X text speed half_tone False = tts_composition X text speed half_tone"
  by (simp add: tts_def tts_composition_def extract_fullcontext_def py_bind_assoc
        py_bind_return)

section \<open>Rules for triples\<close>

lemma tripleI:
  assumes "\<And>s e s'. P s \<Longrightarrow> m s = (Inl e, s') \<Longrightarrow> E s'"
    and "\<And>s x s'. P s \<Longrightarrow> m s = (Inr x, s') \<Longrightarrow> Q s'"
  shows "triple P m Q E"
  unfolding triple_def
proof (intro allI impI)
  fix s assume P: "P s"
  obtain r s' where ms: "m s = (r, s')" by (cases "m s")
  show "case fst (m s) of Inl e \<Rightarrow> E (snd (m s)) | Inr x \<Rightarrow> Q (snd (m s))"
  proof (cases r)
    case (Inl e)
    with assms(1) [OF P] ms show ?thesis by simp
  next
    case (Inr x)
    with assms(2) [OF P] ms show ?thesis by simp
  qed
qed

lemma triple_Inl: "triple P m Q E \<Longrightarrow> P s \<Longrightarrow> m s = (Inl e, s') \<Longrightarrow> E s'"
  by (auto simp: triple_def)

lemma triple_Inr: "triple P m Q E \<Longrightarrow> P s \<Longrightarrow> m s = (Inr x, s') \<Longrightarrow> Q s'"
  by (auto simp: triple_def)

lemma triple_bind:
  assumes m: "triple P m R E" and f: "\<And>x. triple R (f x) Q E"
  shows "triple P (py_bind m f) Q E"
proof (rule tripleI)
  fix s e s' assume P: "P s" and b: "py_bind m f s = (Inl e, s')"
  obtain r s1 where ms: "m s = (r, s1)" by (cases "m s")
  show "E s'"
  proof (cases r)
    case (Inl e1)
    with ms b have "s' = s1" by (simp add: py_bind_def)
    with triple_Inl [OF m P] ms Inl show ?thesis by simp
  next
    case (Inr x)
    with ms b have fx: "f x s1 = (Inl e, s')" by (simp add: py_bind_def)
    from triple_Inr [OF m P] ms Inr have "R s1" by simp
    from triple_Inl [OF f this fx] show ?thesis .
  qed
next
  fix s y s' assume P: "P s" and b: "py_bind m f s = (Inr y, s')"
  obtain r s1 where ms: "m s = (r, s1)" by (cases "m s")
  show "Q s'"
  proof (cases r)
    case (Inl e1)
    with ms b show ?thesis by (simp add: py_bind_def)
  next
    case (Inr x)
    with ms b have fx: "f x s1 = (Inr y, s')" by (simp add: py_bind_def)
    from triple_Inr [OF m P] ms Inr have "R s1" by simp
    from triple_Inr [OF f this fx] show ?thesis .
  qed
qed

lemma triple_weaken:
  assumes "triple P' m Q' E'"
    and "\<And>s. P s \<Longrightarrow> P' s" and "\<And>s. Q' s \<Longrightarrow> Q s" and "\<And>s. E' s \<Longrightarrow> E s"
  shows "triple P m Q E"
proof (rule tripleI)
  fix s e s' assume "P s" and "m s = (Inl e, s')"
  with assms(2) triple_Inl [OF assms(1)] have "E' s'" by blast
  with assms(4) show "E s'" .
next
  fix s x s' assume "P s" and "m s = (Inr x, s')"
  with assms(2) triple_Inr [OF assms(1)] have "Q' s'" by blast
  with assms(3) show "Q s'" .
qed

lemma triple_return: "(\<And>s. P s \<Longrightarrow> Q s) \<Longrightarrow> triple P (py_return x) Q E"
  by (simp add: triple_def py_return_def)

lemma triple_state:
  assumes "triple P m Q E" and "P s"
  shows "Q (snd (m s)) \<or> E (snd (m s))"
proof (cases "m s")
  case (Pair r s')
  with assms triple_Inl [OF assms] triple_Inr [OF assms] show ?thesis
    by (cases r) auto
qed

lemma triple_conj:
  assumes "triple P m Q E" and "triple P' m Q' E'"
  shows "triple (\<lambda>s. P s \<and> P' s) m (\<lambda>s. Q s \<and> Q' s) (\<lambda>s. E s \<and> E' s)"
proof (rule tripleI)
  fix s e s' assume "P s \<and> P' s" and "m s = (Inl e, s')"
  with triple_Inl [OF assms(1)] triple_Inl [OF assms(2)] show "E s' \<and> E' s'" by blast
next
  fix s x s' assume "P s \<and> P' s" and "m s = (Inr x, s')"
  with triple_Inr [OF assms(1)] triple_Inr [OF assms(2)] show "Q s' \<and> Q' s'" by blast
qed

text \<open>Triples of the primitive steps.\<close>

lemma emit_triple:
  "(\<And>s. P s \<Longrightarrow> Q (s\<lparr>trace := trace s @ [ev]\<rparr>)) \<Longrightarrow> triple P (emit ev) Q E"
  by (simp add: triple_def emit_def)

lemma os_call_triple:
  assumes "\<And>s w'. P s \<Longrightarrow> Q (s\<lparr>world := w', trace := trace s @ [ev]\<rparr>)"
  shows "triple P (os_call ev f) Q Q"
proof (rule tripleI)
  fix s e s' assume "P s" and "os_call ev f s = (Inl e, s')"
  then show "Q s'" using assms [of s "snd (f (world s))"]
    by (auto simp: os_call_def split: prod.splits option.splits)
next
  fix s x s' assume "P s" and "os_call ev f s = (Inr x, s')"
  then show "Q s'" using assms [of s "snd (f (world s))"]
    by (auto simp: os_call_def split: prod.splits option.splits)
qed

lemma rebind_triple:
  "(\<And>s. P s \<Longrightarrow> Q (s\<lparr>OPEN_JTALK_DICT_DIR := d\<rparr>)) \<Longrightarrow>
   triple P (\<lambda>s. (Inr (), s\<lparr>OPEN_JTALK_DICT_DIR := d\<rparr>)) Q E"
  by (simp add: triple_def)

lemma htsengine_call_triple:
  assumes "\<And>s h. P s \<Longrightarrow> global_htsengine s \<noteq> None \<Longrightarrow>
             Q (s\<lparr>global_htsengine := Some h, trace := trace s @ [ev]\<rparr>)"
    and "\<And>s. P s \<Longrightarrow> global_htsengine s = None \<Longrightarrow> E s"
    and "\<And>s. Q s \<Longrightarrow> E s"
  shows "triple P (htsengine_call ev f) Q E"
proof (rule tripleI)
  fix s e s' assume "P s" and "htsengine_call ev f s = (Inl e, s')"
  then show "E s'" using assms(1) [of s] assms(2) [of s] assms(3)
    by (auto simp: htsengine_call_def split: option.splits)
next
  fix s x s' assume "P s" and "htsengine_call ev f s = (Inr x, s')"
  then show "Q s'" using assms(1) [of s]
    by (auto simp: htsengine_call_def split: option.splits)
qed

text \<open>A handle that was built was constructed.\<close>

lemma built_jtalk_new: "filter built_jtalk t = filter built_jtalk (filter is_new_jtalk t)"
proof -
  have "built_jtalk e \<Longrightarrow> is_new_jtalk e" for e by (cases e) simp_all
  then have "filter built_jtalk t = filter (\<lambda>e. is_new_jtalk e \<and> built_jtalk e) t"
    by (intro filter_cong) auto
  then show ?thesis by simp
qed

lemma built_htsengine_new:
  "filter built_htsengine t = filter built_htsengine (filter is_new_htsengine t)"
proof -
  have "built_htsengine e \<Longrightarrow> is_new_htsengine e" for e by (cases e) simp_all
  then have "filter built_htsengine t = filter (\<lambda>e. is_new_htsengine e \<and> built_htsengine e) t"
    by (intro filter_cong) auto
  then show ?thesis by simp
qed

lemma built_jtalk_is_new: "built_jtalk ev \<Longrightarrow> is_new_jtalk ev"
  by (cases ev) simp_all

lemma built_htsengine_is_new: "built_htsengine ev \<Longrightarrow> is_new_htsengine ev"
  by (cases ev) simp_all

section \<open>Quiet steps keep tolerant predicates\<close>

lemma quiet_triple:
  assumes q: "quietly m" and tol: "tolerant Q" and QE: "\<And>s. Q s \<Longrightarrow> E s"
  shows "triple Q m Q E"
proof (rule tripleI)
  fix s e s' assume "Q s" "m s = (Inl e, s')"
  moreover from q have "quiet s (snd (m s))" by (simp add: quietly_def)
  ultimately have "Q s'" using tol unfolding tolerant_def by auto
  then show "E s'" by (rule QE)
next
  fix s x s' assume "Q s" "m s = (Inr x, s')"
  moreover from q have "quiet s (snd (m s))" by (simp add: quietly_def)
  ultimately show "Q s'" using tol unfolding tolerant_def by auto
qed

lemma method_events [simp]:
  "method_event (Jt_g2p args kwargs)" "method_event (Jt_run_frontend text)"
  "method_event (Jt_make_label f)" "method_event Hts_get_sampling_frequency"
  "method_event (Hts_set_speed v)" "method_event (Hts_add_half_tone v)"
  "method_event (Hts_synthesize v)" "method_event (Mar_predict v b)"
  by (simp_all add: method_event_def)

lemma quietly_return: "quietly (py_return x)"
  by (simp add: quietly_def quiet_def py_return_def)

lemma quietly_lift: "quietly (py_lift r)"
  by (simp add: quietly_def quiet_def py_lift_def)

lemma quietly_jtalk_call: "method_event ev \<Longrightarrow> quietly (jtalk_call ev f)"
  by (simp add: quietly_def quiet_def jtalk_call_def method_event_def split: option.splits)

lemma quietly_htsengine_call: "method_event ev \<Longrightarrow> quietly (htsengine_call ev f)"
  by (simp add: quietly_def quiet_def htsengine_call_def method_event_def split: option.splits)

lemma quietly_marine_call: "method_event ev \<Longrightarrow> quietly (marine_call ev f)"
  by (simp add: quietly_def quiet_def marine_call_def method_event_def split: option.splits)

lemma quietly_import_convert:
  "quietly (\<lambda>s. (case import_convert X (world s) of Some e \<Rightarrow> Inl e | None \<Rightarrow> Inr (), s))"
  by (simp add: quietly_def quiet_def)

section \<open>From the guards to the public functions\<close>

text \<open>
  Each public function is one of the three guards followed by quiet steps, or a sequence
  of such functions. A triple of the guard with a tolerant postcondition is therefore a
  triple of the function.
\<close>

lemma g2p_triple:
  assumes tol: "tolerant Q" and QE: "\<And>s. Q s \<Longrightarrow> E s" and g: "triple P (guard_jtalk X) Q E"
  shows "triple P (g2p X args kwargs) Q E"
proof -
  note q = quiet_triple [OF _ tol QE]
  show ?thesis unfolding g2p_def
    by (rule triple_bind [OF g]) (simp add: q quietly_jtalk_call)
qed

lemma run_frontend_triple:
  assumes tol: "tolerant Q" and QE: "\<And>s. Q s \<Longrightarrow> E s" and g: "triple P (guard_jtalk X) Q E"
  shows "triple P (run_frontend X text) Q E"
proof -
  note q = quiet_triple [OF _ tol QE]
  show ?thesis unfolding run_frontend_def
    by (rule triple_bind [OF g]) (simp add: q quietly_jtalk_call)
qed

lemma make_label_triple:
  assumes tol: "tolerant Q" and QE: "\<And>s. Q s \<Longrightarrow> E s" and g: "triple P (guard_jtalk X) Q E"
  shows "triple P (make_label X njd_features) Q E"
proof -
  note q = quiet_triple [OF _ tol QE]
  show ?thesis unfolding make_label_def
    by (rule triple_bind [OF g]) (simp add: q quietly_jtalk_call)
qed

lemma estimate_accent_triple:
  assumes tol: "tolerant Q" and QE: "\<And>s. Q s \<Longrightarrow> E s" and g: "triple P (guard_marine X) Q E"
  shows "triple P (estimate_accent X njd_features) Q E"
proof -
  note q = quiet_triple [OF _ tol QE]
  show ?thesis unfolding estimate_accent_def
    by (intro triple_bind [OF g] triple_bind [where R = Q] q quietly_import_convert
          quietly_lift quietly_marine_call method_events)
qed

lemma synthesize_triple:
  assumes tol: "tolerant Q" and QE: "\<And>s. Q s \<Longrightarrow> E s" and g: "triple P (guard_htsengine X) Q E"
  shows "triple P (synthesize X labels speed half_tone) Q E"
proof -
  note q = quiet_triple [OF _ tol QE]
  show ?thesis unfolding synthesize_def Let_def
    by (intro triple_bind [OF g] triple_bind [where R = Q] q quietly_return
          quietly_htsengine_call method_events)
qed

lemma extract_fullcontext_triple:
  assumes tol: "tolerant Q" and QE: "\<And>s. Q s \<Longrightarrow> E s"
    and g: "triple P (guard_jtalk X) Q E" and gq: "triple Q (guard_jtalk X) Q E"
    and m: "triple Q (guard_marine X) Q E"
  shows "triple P (extract_fullcontext X text run_marine) Q E"
proof -
  have mid: "triple Q (if run_marine then estimate_accent X f else py_return f) Q E" for f
    by (simp add: estimate_accent_triple [OF tol QE m] quiet_triple [OF quietly_return tol QE])
  show ?thesis unfolding extract_fullcontext_def
    by (intro triple_bind [OF run_frontend_triple [OF tol QE g]] triple_bind [OF mid]
          make_label_triple [OF tol QE gq])
qed

lemma tts_triple:
  assumes tol: "tolerant Q" and QE: "\<And>s. Q s \<Longrightarrow> E s"
    and g: "triple P (guard_jtalk X) Q E" and gq: "triple Q (guard_jtalk X) Q E"
    and m: "triple Q (guard_marine X) Q E" and h: "triple Q (guard_htsengine X) Q E"
  shows "triple P (tts X text speed half_tone run_marine) Q E"
  unfolding tts_def
  by (intro triple_bind [OF extract_fullcontext_triple [OF tol QE g gq m]]
        synthesize_triple [OF tol QE h])

text \<open>
  A tolerant predicate that the three guards keep is kept by every call, and so by every
  sequence of calls.
\<close>

lemma perform_keeps:
  assumes tol: "tolerant I"
    and j: "triple I (guard_jtalk X) I I"
    and h: "triple I (guard_htsengine X) I I"
    and m: "triple I (guard_marine X) I I"
  shows "triple I (perform X c) I I"
proof -
  have II: "\<And>s. I s \<Longrightarrow> I s" .
  show ?thesis
  proof (cases c)
    case (G2p args kwargs)
    with g2p_triple [OF tol II j] show ?thesis by simp
  next
    case (Estimate_accent f)
    with estimate_accent_triple [OF tol II m] show ?thesis by simp
  next
    case (Extract_fullcontext t run_marine)
    with extract_fullcontext_triple [OF tol II j j m] show ?thesis by simp
  next
    case (Synthesize labels speed half_tone)
    with synthesize_triple [OF tol II h] show ?thesis by simp
  next
    case (Tts t speed half_tone run_marine)
    with tts_triple [OF tol II j j m h] show ?thesis by simp
  next
    case (Run_frontend t)
    with run_frontend_triple [OF tol II j] show ?thesis by simp
  next
    case (Make_label f)
    with make_label_triple [OF tol II j] show ?thesis by simp
  qed
qed

lemma run_keeps:
  assumes tol: "tolerant I"
    and j: "triple I (guard_jtalk X) I I"
    and h: "triple I (guard_htsengine X) I I"
    and m: "triple I (guard_marine X) I I"
    and s: "I s"
  shows "I (run X cs s)"
  using s
proof (induction cs arbitrary: s)
  case Nil
  then show ?case by simp
next
  case (Cons c cs)
  from triple_state [OF perform_keeps [OF tol j h m] Cons.prems]
  have "I (snd (perform X c s))" by simp
  then show ?case by (simp add: Cons.IH)
qed

section \<open>The provisioning step and the guards\<close>

lemma provision_safe_emit:
  assumes "provision_safe I" and "\<not> is_new_jtalk ev" and "\<not> is_new_htsengine ev"
  shows "triple I (emit ev) I I"
proof (rule emit_triple)
  fix s assume "I s"
  with assms have "I (s\<lparr>world := world s, trace := trace s @ [ev]\<rparr>)"
    unfolding provision_safe_def by blast
  then show "I (s\<lparr>trace := trace s @ [ev]\<rparr>)" by simp
qed

lemma provision_safe_os_call:
  assumes "provision_safe I" and "\<not> is_new_jtalk ev" and "\<not> is_new_htsengine ev"
  shows "triple I (os_call ev f) I I"
  using assms unfolding provision_safe_def by (intro os_call_triple) blast

lemma provision_safe_rebind:
  assumes "provision_safe I"
  shows "triple I (\<lambda>s. (Inr (), s\<lparr>OPEN_JTALK_DICT_DIR := d\<rparr>)) I I"
  using assms unfolding provision_safe_def by (intro rebind_triple) blast

lemma extract_dic_keeps:
  assumes "provision_safe I"
  shows "triple I (extract_dic X) I I"
  unfolding extract_dic_def Let_def
  by (intro triple_bind [where R = I] provision_safe_emit [OF assms]
        provision_safe_os_call [OF assms] provision_safe_rebind [OF assms]) simp_all

lemma lazy_init_keeps:
  assumes "provision_safe I"
  shows "triple I (lazy_init X) I I"
proof (rule tripleI)
  fix s e s' assume "I s" and "lazy_init X s = (Inl e, s')"
  then show "I s'"
    using triple_Inl [OF extract_dic_keeps [OF assms]]
    by (auto simp: lazy_init_def split: if_splits)
next
  fix s x s' assume "I s" and "lazy_init X s = (Inr x, s')"
  then show "I s'"
    using triple_Inr [OF extract_dic_keeps [OF assms]]
    by (auto simp: lazy_init_def split: if_splits)
qed

text \<open>Triples of the guards, from what their branches do.\<close>

lemma new_OpenJTalk_triple:
  assumes "\<And>s h ok. P s \<Longrightarrow> E (s\<lparr>trace := trace s @ [New_OpenJTalk (OPEN_JTALK_DICT_DIR s) False]\<rparr>)"
    and "\<And>s h. P s \<Longrightarrow> Q (s\<lparr>global_jtalk := Some h,
            trace := trace s @ [New_OpenJTalk (OPEN_JTALK_DICT_DIR s) True]\<rparr>)"
  shows "triple P (new_OpenJTalk X) Q E"
proof (rule tripleI)
  fix s e s' assume "P s" and "new_OpenJTalk X s = (Inl e, s')"
  then show "E s'" using assms(1) [of s]
    by (auto simp: new_OpenJTalk_def split: sum.splits)
next
  fix s x s' assume "P s" and "new_OpenJTalk X s = (Inr x, s')"
  then show "Q s'" using assms(2) [of s]
    by (auto simp: new_OpenJTalk_def split: sum.splits)
qed

lemma guard_jtalk_triple:
  assumes c: "\<And>s. P s \<Longrightarrow> global_jtalk s \<noteq> None \<Longrightarrow> Q s"
    and l: "triple (\<lambda>s. P s \<and> global_jtalk s = None) (lazy_init X) R E"
    and n: "triple R (new_OpenJTalk X) Q E"
  shows "triple P (guard_jtalk X) Q E"
proof (rule tripleI)
  fix s e s' assume P: "P s" and g: "guard_jtalk X s = (Inl e, s')"
  then have N: "global_jtalk s = None" by (auto simp: guard_jtalk_def split: if_splits)
  with g have "py_bind (lazy_init X) (\<lambda>_. new_OpenJTalk X) s = (Inl e, s')"
    by (simp add: guard_jtalk_def)
  with triple_Inl [OF triple_bind [OF l n]] P N show "E s'" by blast
next
  fix s x s' assume P: "P s" and g: "guard_jtalk X s = (Inr x, s')"
  show "Q s'"
  proof (cases "global_jtalk s = None")
    case True
    with g have "py_bind (lazy_init X) (\<lambda>_. new_OpenJTalk X) s = (Inr x, s')"
      by (simp add: guard_jtalk_def)
    with triple_Inr [OF triple_bind [OF l n]] P True show ?thesis by blast
  next
    case False
    with g have "s' = s" by (simp add: guard_jtalk_def)
    with c [OF P False] show ?thesis by simp
  qed
qed

lemma guard_htsengine_triple:
  assumes "\<And>s. P s \<Longrightarrow> global_htsengine s \<noteq> None \<Longrightarrow> Q s"
    and "\<And>s. P s \<Longrightarrow> global_htsengine s = None \<Longrightarrow>
           E (s\<lparr>trace := trace s @ [New_HTSEngine (DEFAULT_HTS_VOICE X) False]\<rparr>)"
    and "\<And>s h. P s \<Longrightarrow> global_htsengine s = None \<Longrightarrow>
           Q (s\<lparr>global_htsengine := Some h,
               trace := trace s @ [New_HTSEngine (DEFAULT_HTS_VOICE X) True]\<rparr>)"
  shows "triple P (guard_htsengine X) Q E"
proof (rule tripleI)
  fix s e s' assume "P s" and "guard_htsengine X s = (Inl e, s')"
  then show "E s'" using assms(2) [of s]
    by (auto simp: guard_htsengine_def split: if_splits sum.splits)
next
  fix s x s' assume "P s" and "guard_htsengine X s = (Inr x, s')"
  then show "Q s'" using assms(1) [of s] assms(3) [of s]
    by (auto simp: guard_htsengine_def split: if_splits sum.splits)
qed

lemma guard_marine_triple:
  assumes "\<And>s. P s \<Longrightarrow> global_marine s \<noteq> None \<Longrightarrow> Q s"
    and "\<And>s. P s \<Longrightarrow> global_marine s = None \<Longrightarrow> E s"
    and "\<And>s. P s \<Longrightarrow> global_marine s = None \<Longrightarrow> import_Predictor X (world s) = None \<Longrightarrow>
           E (s\<lparr>trace := trace s @ [New_Predictor False]\<rparr>)"
    and "\<And>s h. P s \<Longrightarrow> global_marine s = None \<Longrightarrow> import_Predictor X (world s) = None \<Longrightarrow>
           Q (s\<lparr>global_marine := Some h, trace := trace s @ [New_Predictor True]\<rparr>)"
  shows "triple P (guard_marine X) Q E"
proof (rule tripleI)
  fix s e s' assume "P s" and "guard_marine X s = (Inl e, s')"
  then show "E s'" using assms(2) [of s] assms(3) [of s]
    by (auto simp: guard_marine_def split: if_splits sum.splits option.splits)
next
  fix s x s' assume "P s" and "guard_marine X s = (Inr x, s')"
  then show "Q s'" using assms(1) [of s] assms(4) [of s]
    by (auto simp: guard_marine_def split: if_splits sum.splits option.splits)
qed

section \<open>Invariants of a run\<close>

text \<open>
  The analyzer guard keeps a predicate that is safe under provisioning while no analyzer
  is bound and that both outcomes of the constructor call keep.
\<close>

lemma guard_jtalk_keeps:
  assumes safe: "provision_safe (\<lambda>s. I s \<and> global_jtalk s = None)"
    and bad: "\<And>s. I s \<Longrightarrow> global_jtalk s = None \<Longrightarrow>
           I (s\<lparr>trace := trace s @ [New_OpenJTalk (OPEN_JTALK_DICT_DIR s) False]\<rparr>)"
    and good: "\<And>s h. I s \<Longrightarrow> global_jtalk s = None \<Longrightarrow>
           I (s\<lparr>global_jtalk := Some h,
               trace := trace s @ [New_OpenJTalk (OPEN_JTALK_DICT_DIR s) True]\<rparr>)"
  shows "triple I (guard_jtalk X) I I"
proof (rule guard_jtalk_triple [where R = "\<lambda>s. I s \<and> global_jtalk s = None"])
  show "triple (\<lambda>s. I s \<and> global_jtalk s = None) (lazy_init X)
          (\<lambda>s. I s \<and> global_jtalk s = None) I"
    by (rule triple_weaken [OF lazy_init_keeps [OF safe]]) simp_all
  show "triple (\<lambda>s. I s \<and> global_jtalk s = None) (new_OpenJTalk X) I I"
    by (rule new_OpenJTalk_triple) (simp_all add: bad good)
qed simp

subsection \<open>The analyzer is cached\<close>

lemma tolerant_jtalk_cached: "tolerant (jtalk_cached a k)"
  by (auto simp: tolerant_def quiet_def jtalk_cached_def)

lemma jtalk_cached_guard_jtalk: "triple (jtalk_cached a k) (guard_jtalk X) (jtalk_cached a k) (jtalk_cached a k)"
  by (rule tripleI) (auto simp: guard_jtalk_def jtalk_cached_def)

lemma jtalk_cached_guard_htsengine:
  "triple (jtalk_cached a k) (guard_htsengine X) (jtalk_cached a k) (jtalk_cached a k)"
  by (rule guard_htsengine_triple) (simp_all add: jtalk_cached_def)

lemma jtalk_cached_guard_marine:
  "triple (jtalk_cached a k) (guard_marine X) (jtalk_cached a k) (jtalk_cached a k)"
  by (rule guard_marine_triple) (simp_all add: jtalk_cached_def)

lemmas jtalk_cached_guards =
  tolerant_jtalk_cached jtalk_cached_guard_jtalk jtalk_cached_guard_htsengine
  jtalk_cached_guard_marine

subsection \<open>At most one analyzer was built\<close>

lemma tolerant_jtalk_once: "tolerant jtalk_once"
proof -
  have "jtalk_once s'" if "jtalk_once s" and "quiet s s'" for s s' :: "('w, 'jt, 'hts, 'mar) state"
  proof -
    from that(2) have "filter is_new_jtalk (trace s') = filter is_new_jtalk (trace s)"
      and "(global_jtalk s' = None) = (global_jtalk s = None)"
      by (simp_all add: quiet_def)
    with that(1) built_jtalk_new [of "trace s'"] built_jtalk_new [of "trace s"]
    show ?thesis by (simp add: jtalk_once_def)
  qed
  then show ?thesis unfolding tolerant_def by blast
qed

lemma jtalk_once_guard_jtalk: "triple jtalk_once (guard_jtalk X) jtalk_once jtalk_once"
  by (rule guard_jtalk_keeps)
     (auto simp: provision_safe_def jtalk_once_def dest: built_jtalk_is_new)

lemma jtalk_once_guard_htsengine: "triple jtalk_once (guard_htsengine X) jtalk_once jtalk_once"
  by (rule guard_htsengine_triple) (auto simp: jtalk_once_def)

lemma jtalk_once_guard_marine: "triple jtalk_once (guard_marine X) jtalk_once jtalk_once"
  by (rule guard_marine_triple) (auto simp: jtalk_once_def)

lemmas jtalk_once_guards =
  tolerant_jtalk_once jtalk_once_guard_jtalk jtalk_once_guard_htsengine jtalk_once_guard_marine

subsection \<open>The synthesizer is cached\<close>

lemma tolerant_htsengine_cached: "tolerant (htsengine_cached b)"
  by (auto simp: tolerant_def quiet_def htsengine_cached_def)

lemma htsengine_cached_guard_jtalk:
  "triple (htsengine_cached b) (guard_jtalk X) (htsengine_cached b) (htsengine_cached b)"
  by (rule guard_jtalk_keeps) (auto simp: provision_safe_def htsengine_cached_def)

lemma htsengine_cached_guard_htsengine:
  "triple (htsengine_cached b) (guard_htsengine X) (htsengine_cached b) (htsengine_cached b)"
  by (rule guard_htsengine_triple) (simp_all add: htsengine_cached_def)

lemma htsengine_cached_guard_marine:
  "triple (htsengine_cached b) (guard_marine X) (htsengine_cached b) (htsengine_cached b)"
  by (rule guard_marine_triple) (simp_all add: htsengine_cached_def)

lemmas htsengine_cached_guards =
  tolerant_htsengine_cached htsengine_cached_guard_jtalk htsengine_cached_guard_htsengine
  htsengine_cached_guard_marine

subsection \<open>At most one synthesizer was built\<close>

lemma tolerant_htsengine_once: "tolerant htsengine_once"
proof -
  have "htsengine_once s'" if "htsengine_once s" and "quiet s s'"
    for s s' :: "('w, 'jt, 'hts, 'mar) state"
  proof -
    from that(2) have "filter is_new_htsengine (trace s') = filter is_new_htsengine (trace s)"
      and "(global_htsengine s' = None) = (global_htsengine s = None)"
      by (simp_all add: quiet_def)
    with that(1) built_htsengine_new [of "trace s'"] built_htsengine_new [of "trace s"]
    show ?thesis by (simp add: htsengine_once_def)
  qed
  then show ?thesis unfolding tolerant_def by blast
qed

lemma htsengine_once_guard_jtalk:
  "triple htsengine_once (guard_jtalk X) htsengine_once htsengine_once"
  by (rule guard_jtalk_keeps)
     (auto simp: provision_safe_def htsengine_once_def dest: built_htsengine_is_new)

lemma htsengine_once_guard_htsengine:
  "triple htsengine_once (guard_htsengine X) htsengine_once htsengine_once"
  by (rule guard_htsengine_triple) (auto simp: htsengine_once_def)

lemma htsengine_once_guard_marine:
  "triple htsengine_once (guard_marine X) htsengine_once htsengine_once"
  by (rule guard_marine_triple) (auto simp: htsengine_once_def)

lemmas htsengine_once_guards =
  tolerant_htsengine_once htsengine_once_guard_jtalk htsengine_once_guard_htsengine
  htsengine_once_guard_marine

subsection \<open>The dictionary directory exists\<close>

lemma tolerant_dict_present: "tolerant (dict_present X k)"
  by (auto simp: tolerant_def quiet_def dict_present_def)

lemma dict_present_guard_jtalk:
  "triple (dict_present X k) (guard_jtalk X) (dict_present X k) (dict_present X k)"
proof (rule guard_jtalk_triple [where R = "dict_present X k"])
  show "triple (\<lambda>s. dict_present X k s \<and> global_jtalk s = None) (lazy_init X)
          (dict_present X k) (dict_present X k)"
    by (rule tripleI) (auto simp: lazy_init_def dict_present_def)
  show "triple (dict_present X k) (new_OpenJTalk X) (dict_present X k) (dict_present X k)"
    by (rule new_OpenJTalk_triple) (simp_all add: dict_present_def)
qed simp

lemma dict_present_guard_htsengine:
  "triple (dict_present X k) (guard_htsengine X) (dict_present X k) (dict_present X k)"
  by (rule guard_htsengine_triple) (simp_all add: dict_present_def)

lemma dict_present_guard_marine:
  "triple (dict_present X k) (guard_marine X) (dict_present X k) (dict_present X k)"
  by (rule guard_marine_triple) (simp_all add: dict_present_def)

lemmas dict_present_guards =
  tolerant_dict_present dict_present_guard_jtalk dict_present_guard_htsengine
  dict_present_guard_marine

subsection \<open>No predictor is bound\<close>

lemma tolerant_marine_unbound: "tolerant marine_unbound"
  by (auto simp: tolerant_def quiet_def marine_unbound_def)

lemma marine_unbound_guard_jtalk:
  "triple marine_unbound (guard_jtalk X) marine_unbound marine_unbound"
  by (rule guard_jtalk_keeps) (auto simp: provision_safe_def marine_unbound_def)

lemma marine_unbound_guard_htsengine:
  "triple marine_unbound (guard_htsengine X) marine_unbound marine_unbound"
  by (rule guard_htsengine_triple) (simp_all add: marine_unbound_def)

lemma marine_unbound_guard_marine:
  assumes "\<And>w. import_Predictor X w \<noteq> None"
  shows "triple marine_unbound (guard_marine X) marine_unbound marine_unbound"
  by (rule guard_marine_triple) (simp_all add: marine_unbound_def assms)

section \<open>Evaluation\<close>

text \<open>The initial state, and the equations that evaluate the model on a concrete input.\<close>

lemma module_init_simps [simp]:
  "global_jtalk (module_init X w) = None"
  "global_htsengine (module_init X w) = None"
  "global_marine (module_init X w) = None"
  "world (module_init X w) = w"
  "trace (module_init X w) = []"
  by (simp_all add: module_init_def)

lemmas model_defs =
  g2p_def run_frontend_def make_label_def estimate_accent_def extract_fullcontext_def
  synthesize_def tts_def unwrap_labels_def guard_jtalk_def guard_htsengine_def guard_marine_def
  new_OpenJTalk_def lazy_init_def extract_dic_def jtalk_call_def htsengine_call_def
  marine_call_def os_call_def emit_def py_bind_def py_return_def py_lift_def module_init_def
  default_dict_dir_def DEFAULT_HTS_VOICE_def resource_filename_def DICT_URL_def
  dict_download_url_def Let_def

section \<open>The two native handles are singletons\<close>

text \<open>
  C4. Across any sequence of calls to the public functions in one process, the analyzer
  handle and the synthesizer handle are each constructed at most once: in the trace of a
  run from the state after import there is at most one constructor call of \<^verbatim>\<open>OpenJTalk\<close>
  that returned an instance and at most one of \<^verbatim>\<open>HTSEngine\<close>; and from any state
  whose global slot is bound, every later call leaves the slot bound and adds no constructor
  call of that class to the trace, successful or not.
\<close>

theorem handles_constructed_once:
  "length (filter built_jtalk (trace (run X cs (module_init X w)))) \<le> 1 \<and>
   length (filter built_htsengine (trace (run X cs (module_init X w)))) \<le> 1 \<and>
   (global_jtalk s \<noteq> None \<longrightarrow>
      global_jtalk (run X cs s) \<noteq> None \<and>
      filter is_new_jtalk (trace (run X cs s)) = filter is_new_jtalk (trace s)) \<and>
   (global_htsengine s \<noteq> None \<longrightarrow>
      global_htsengine (run X cs s) \<noteq> None \<and>
      filter is_new_htsengine (trace (run X cs s)) = filter is_new_htsengine (trace s))"
proof (intro conjI impI)
  have "jtalk_once (module_init X w)" by (simp add: jtalk_once_def)
  from run_keeps [OF jtalk_once_guards this, where X = X and cs = cs]
  show "length (filter built_jtalk (trace (run X cs (module_init X w)))) \<le> 1"
    by (simp add: jtalk_once_def split: if_splits)
next
  have "htsengine_once (module_init X w)" by (simp add: htsengine_once_def)
  from run_keeps [OF htsengine_once_guards this, where X = X and cs = cs]
  show "length (filter built_htsengine (trace (run X cs (module_init X w)))) \<le> 1"
    by (simp add: htsengine_once_def split: if_splits)
next
  assume "global_jtalk s \<noteq> None"
  then have "jtalk_cached (filter is_new_jtalk (trace s)) (filter is_download (trace s)) s"
    by (simp add: jtalk_cached_def)
  from run_keeps [OF jtalk_cached_guards this, where X = X and cs = cs]
  show "global_jtalk (run X cs s) \<noteq> None"
    and "filter is_new_jtalk (trace (run X cs s)) = filter is_new_jtalk (trace s)"
    by (simp_all add: jtalk_cached_def)
next
  assume "global_htsengine s \<noteq> None"
  then have "htsengine_cached (filter is_new_htsengine (trace s)) s"
    by (simp add: htsengine_cached_def)
  from run_keeps [OF htsengine_cached_guards this, where X = X and cs = cs]
  show "global_htsengine (run X cs s) \<noteq> None"
    and "filter is_new_htsengine (trace (run X cs s)) = filter is_new_htsengine (trace s)"
    by (simp_all add: htsengine_cached_def)
qed

text \<open>
  C4 on the concrete platform: after a first \<^verbatim>\<open>tts\<close> both slots are bound, and five more
  calls leave exactly the one constructor call of each class in the trace.
\<close>

theorem handles_constructed_once_witness:
  "global_jtalk first_run \<noteq> None \<and> global_htsengine first_run \<noteq> None \<and>
   length (filter built_jtalk
     (trace (run (demo None) more_calls (module_init (demo None) [])))) \<le> 1 \<and>
   length (filter built_htsengine
     (trace (run (demo None) more_calls (module_init (demo None) [])))) \<le> 1 \<and>
   global_jtalk (run (demo None) more_calls first_run) \<noteq> None \<and>
   filter is_new_jtalk (trace (run (demo None) more_calls first_run)) =
     [New_OpenJTalk ''/pkg/open_jtalk_dic_utf_8-1.11'' True] \<and>
   global_htsengine (run (demo None) more_calls first_run) \<noteq> None \<and>
   filter is_new_htsengine (trace (run (demo None) more_calls first_run)) =
     [New_HTSEngine ''/pkg/htsvoice/mei_normal.htsvoice'' True]"
proof -
  have s: "global_jtalk first_run \<noteq> None" "global_htsengine first_run \<noteq> None"
    "filter is_new_jtalk (trace first_run) = [New_OpenJTalk ''/pkg/open_jtalk_dic_utf_8-1.11'' True]"
    "filter is_new_htsengine (trace first_run) = [New_HTSEngine ''/pkg/htsvoice/mei_normal.htsvoice'' True]"
    by (simp_all add: first_run_def model_defs demo_def)
  with handles_constructed_once [of "demo None" more_calls "[]" first_run]
  show ?thesis by simp
qed

section \<open>Provisioning attempts\<close>

text \<open>
  The provisioning step makes exactly one download, whether it returns or raises, and has
  rebound the dictionary directory to the packaged one when it returns.
\<close>

lemma extract_dic_downloads:
  "triple (\<lambda>s. filter is_download (trace s) = k) (extract_dic X)
     (\<lambda>s. filter is_download (trace s) = k @ [the_download X] \<and>
           OPEN_JTALK_DICT_DIR s = default_dict_dir X)
     (\<lambda>s. filter is_download (trace s) = k @ [the_download X])"
proof -
  let ?D = "\<lambda>s :: ('a, 'b, 'c, 'd) state. filter is_download (trace s) = k @ [the_download X]"
  let ?R = "\<lambda>s. ?D s \<and> OPEN_JTALK_DICT_DIR s = default_dict_dir X"
  have 1: "triple (\<lambda>s. filter is_download (trace s) = k) (emit (Print a)) 
             (\<lambda>s. filter is_download (trace s) = k) ?D" for a
    by (rule emit_triple) simp
  have 2: "triple (\<lambda>s. filter is_download (trace s) = k)
             (os_call (the_download X) f) ?D ?D" for f
    by (rule os_call_triple) (simp add: the_download_def)
  have 3: "triple ?D (emit (Print a)) ?D ?D" for a
    by (rule emit_triple) simp
  have 4: "triple ?D (os_call (Tar_extractall a b) f) ?D ?D" for a b f
    by (rule os_call_triple) simp
  have 5: "triple ?D (\<lambda>s. (Inr (), s\<lparr>OPEN_JTALK_DICT_DIR := default_dict_dir X\<rparr>)) ?R ?D"
    by (rule rebind_triple) simp
  have "triple ?R (os_call (Os_remove a) f) ?R ?R" for a f
    by (rule os_call_triple) simp
  then have 6: "triple ?R (os_call (Os_remove a) f) ?R ?D" for a f
    by (rule triple_weaken) simp_all
  show ?thesis
    unfolding extract_dic_def Let_def the_download_def [symmetric]
    by (intro triple_bind [OF 1] triple_bind [OF 2] triple_bind [OF 3] triple_bind [OF 4]
          triple_bind [OF 5] 6)
qed

text \<open>
  The analyzer guard in a state that needs provisioning, and with it every call that goes
  through the analyzer.
\<close>

lemma guard_jtalk_first:
  "triple (unprovisioned X a k) (guard_jtalk X)
     (jtalk_cached (a @ [New_OpenJTalk (default_dict_dir X) True]) (k @ [the_download X]))
     (provisioned_once X a k)"
proof (rule guard_jtalk_triple
    [where R = "\<lambda>s. (global_jtalk s = None \<and> filter is_new_jtalk (trace s) = a) \<and>
                     filter is_download (trace s) = k @ [the_download X] \<and>
                     OPEN_JTALK_DICT_DIR s = default_dict_dir X"])
  fix s :: "('a, 'b, 'c, 'd) state"
  assume "unprovisioned X a k s" and "global_jtalk s \<noteq> None"
  then show "jtalk_cached (a @ [New_OpenJTalk (default_dict_dir X) True]) (k @ [the_download X]) s"
    by (simp add: unprovisioned_def)
next
  have safe: "provision_safe (\<lambda>s :: ('a, 'b, 'c, 'd) state.
      global_jtalk s = None \<and> filter is_new_jtalk (trace s) = a)"
    by (auto simp: provision_safe_def)
  note e = triple_conj [OF extract_dic_keeps [OF safe] extract_dic_downloads [of k X]]
  show "triple (\<lambda>s. unprovisioned X a k s \<and> global_jtalk s = None) (lazy_init X)
     (\<lambda>s. (global_jtalk s = None \<and> filter is_new_jtalk (trace s) = a) \<and>
           filter is_download (trace s) = k @ [the_download X] \<and>
           OPEN_JTALK_DICT_DIR s = default_dict_dir X)
     (provisioned_once X a k)"
  proof (rule tripleI)
    fix s e1 s' assume "unprovisioned X a k s \<and> global_jtalk s = None"
      and "lazy_init X s = (Inl e1, s')"
    with triple_Inl [OF e, of s e1 s'] show "provisioned_once X a k s'"
      by (simp add: unprovisioned_def lazy_init_def provisioned_once_def)
  next
    fix s x s' assume "unprovisioned X a k s \<and> global_jtalk s = None"
      and "lazy_init X s = (Inr x, s')"
    with triple_Inr [OF e, of s x s']
    show "(global_jtalk s' = None \<and> filter is_new_jtalk (trace s') = a) \<and>
           filter is_download (trace s') = k @ [the_download X] \<and>
           OPEN_JTALK_DICT_DIR s' = default_dict_dir X"
      by (simp add: unprovisioned_def lazy_init_def)
  qed
next
  show "triple (\<lambda>s. (global_jtalk s = None \<and> filter is_new_jtalk (trace s) = a) \<and>
           filter is_download (trace s) = k @ [the_download X] \<and>
           OPEN_JTALK_DICT_DIR s = default_dict_dir X) (new_OpenJTalk X)
     (jtalk_cached (a @ [New_OpenJTalk (default_dict_dir X) True]) (k @ [the_download X]))
     (provisioned_once X a k)"
    by (rule new_OpenJTalk_triple) (simp_all add: jtalk_cached_def provisioned_once_def)
qed

lemma cached_provisioned_once:
  "jtalk_cached (a @ [New_OpenJTalk (default_dict_dir X) True]) (k @ [the_download X]) s \<Longrightarrow>
   provisioned_once X a k s"
  by (simp add: jtalk_cached_def provisioned_once_def)

lemma analyzer_backed_first:
  assumes "analyzer_backed c"
  shows "triple (unprovisioned X a k) (perform X c)
     (jtalk_cached (a @ [New_OpenJTalk (default_dict_dir X) True]) (k @ [the_download X]))
     (provisioned_once X a k)"
proof -
  let ?Q = "jtalk_cached (a @ [New_OpenJTalk (default_dict_dir X) True]) (k @ [the_download X])"
  note QE = cached_provisioned_once
  note g = guard_jtalk_first [of X a k]
  have gq: "triple ?Q (guard_jtalk X) ?Q (provisioned_once X a k)"
    by (rule triple_weaken [OF jtalk_cached_guard_jtalk]) (auto intro: QE)
  have m: "triple ?Q (guard_marine X) ?Q (provisioned_once X a k)"
    by (rule triple_weaken [OF jtalk_cached_guard_marine]) (auto intro: QE)
  have h: "triple ?Q (guard_htsengine X) ?Q (provisioned_once X a k)"
    by (rule triple_weaken [OF jtalk_cached_guard_htsengine]) (auto intro: QE)
  note tol = tolerant_jtalk_cached
  show ?thesis
  proof (cases c)
    case (G2p args kwargs)
    with g2p_triple [OF tol QE g] show ?thesis by simp
  next
    case (Estimate_accent f)
    with assms show ?thesis by simp
  next
    case (Extract_fullcontext t run_marine)
    with extract_fullcontext_triple [OF tol QE g gq m] show ?thesis by simp
  next
    case (Synthesize labels speed half_tone)
    with assms show ?thesis by simp
  next
    case (Tts t speed half_tone run_marine)
    with tts_triple [OF tol QE g gq m h] show ?thesis by simp
  next
    case (Run_frontend t)
    with run_frontend_triple [OF tol QE g] show ?thesis by simp
  next
    case (Make_label f)
    with make_label_triple [OF tol QE g] show ?thesis by simp
  qed
qed

lemma first_call_provisions:
  assumes "analyzer_backed c" and "global_jtalk s = None"
    and "\<not> exists X (OPEN_JTALK_DICT_DIR s) (world s)"
  shows "provisioned_once X (filter is_new_jtalk (trace s)) (filter is_download (trace s))
           (snd (perform X c s))"
proof -
  from assms(2,3)
  have "unprovisioned X (filter is_new_jtalk (trace s)) (filter is_download (trace s)) s"
    by (simp add: unprovisioned_def)
  from triple_state [OF analyzer_backed_first [OF assms(1)] this]
  show ?thesis by (auto simp: cached_provisioned_once)
qed

text \<open>
  No download while the dictionary directory exists, none once the analyzer is cached,
  and none ever by \<^verbatim>\<open>synthesize\<close> and \<^verbatim>\<open>estimate_accent\<close>.
\<close>

lemma no_download_when_present:
  assumes "exists X (OPEN_JTALK_DICT_DIR s) (world s)"
  shows "filter is_download (trace (run X cs s)) = filter is_download (trace s)"
proof -
  from assms have "dict_present X (filter is_download (trace s)) s"
    by (simp add: dict_present_def)
  from run_keeps [OF dict_present_guards this, where cs = cs]
  show ?thesis by (simp add: dict_present_def)
qed

lemma no_download_when_cached:
  assumes "global_jtalk s \<noteq> None"
  shows "filter is_download (trace (run X cs s)) = filter is_download (trace s)"
proof -
  from assms
  have "jtalk_cached (filter is_new_jtalk (trace s)) (filter is_download (trace s)) s"
    by (simp add: jtalk_cached_def)
  from run_keeps [OF jtalk_cached_guards this, where X = X and cs = cs]
  show ?thesis by (simp add: jtalk_cached_def)
qed

lemma other_calls_no_download:
  assumes "\<not> analyzer_backed c"
  shows "filter is_download (trace (snd (perform X c s))) = filter is_download (trace s)"
proof -
  let ?Q = "\<lambda>s' :: ('a, 'b, 'c, 'd) state.
    filter is_download (trace s') = filter is_download (trace s)"
  have tol: "tolerant ?Q" by (auto simp: tolerant_def quiet_def)
  have QQ: "\<And>s'. ?Q s' \<Longrightarrow> ?Q s'" .
  have h: "triple ?Q (guard_htsengine X) ?Q ?Q"
    by (rule guard_htsengine_triple) simp_all
  have m: "triple ?Q (guard_marine X) ?Q ?Q"
    by (rule guard_marine_triple) simp_all
  have "triple ?Q (perform X c) ?Q ?Q"
  proof (cases c)
    case (Estimate_accent f)
    with estimate_accent_triple [OF tol QQ m] show ?thesis by simp
  next
    case (Synthesize labels speed half_tone)
    with synthesize_triple [OF tol QQ h] show ?thesis by simp
  qed (use assms in simp_all)
  from triple_state [OF this, of s] show ?thesis by simp
qed

lemma extract_dic_rebinds:
  assumes "fst (extract_dic X s) = Inr u"
  shows "OPEN_JTALK_DICT_DIR (snd (extract_dic X s)) = default_dict_dir X"
proof -
  obtain r s' where e: "extract_dic X s = (r, s')" by (cases "extract_dic X s")
  with assms have "extract_dic X s = (Inr u, s')" by simp
  from triple_Inr [OF extract_dic_downloads [of "filter is_download (trace s)"] _ this]
  show ?thesis using e by simp
qed

text \<open>
  C5, as the code has it. A call to \<^verbatim>\<open>g2p\<close>, \<^verbatim>\<open>run_frontend\<close>, \<^verbatim>\<open>make_label\<close>,
  \<^verbatim>\<open>extract_fullcontext\<close> or \<^verbatim>\<open>tts\<close> made while no analyzer is cached and the
  dictionary directory does not exist makes exactly one provisioning attempt (one download
  call); a call to \<^verbatim>\<open>synthesize\<close> or \<^verbatim>\<open>estimate_accent\<close> makes none, in any state.
  Once the dictionary directory exists, or once the analyzer is cached, no sequence of
  later calls makes another attempt; and a provisioning step that returns has rebound the
  dictionary directory to the packaged one.
\<close>

theorem provisioning_attempts:
  "(analyzer_backed c \<and> global_jtalk s = None \<and>
      \<not> exists X (OPEN_JTALK_DICT_DIR s) (world s) \<longrightarrow>
      filter is_download (trace (snd (perform X c s))) =
        filter is_download (trace s) @
        [Urlretrieve DICT_URL (resource_filename (pkg_dir X) ''dic.tar.gz'')]) \<and>
   (\<not> analyzer_backed c \<longrightarrow>
      filter is_download (trace (snd (perform X c s))) = filter is_download (trace s)) \<and>
   (exists X (OPEN_JTALK_DICT_DIR s) (world s) \<longrightarrow>
      filter is_download (trace (run X cs s)) = filter is_download (trace s)) \<and>
   (global_jtalk s \<noteq> None \<longrightarrow>
      filter is_download (trace (run X cs s)) = filter is_download (trace s)) \<and>
   (fst (extract_dic X s) = Inr u \<longrightarrow>
      OPEN_JTALK_DICT_DIR (snd (extract_dic X s)) = default_dict_dir X)"
  using first_call_provisions [of c s X] other_calls_no_download [of c X s]
    no_download_when_present [of X s cs]
    no_download_when_cached [of s X cs] extract_dic_rebinds [of X s u]
  by (simp add: provisioned_once_def the_download_def)

text \<open>
  C5 on the concrete platform: the first \<^verbatim>\<open>tts\<close> on an empty disk downloads once,
  \<^verbatim>\<open>synthesize\<close> on the same disk downloads nothing, and five more calls after the
  first add no download.
\<close>

theorem provisioning_attempts_witness:
  "analyzer_backed (Tts (PyStr ''a'') (PyFloat 2) (PyFloat 0) False) \<and>
   global_jtalk (module_init (demo None) []) = None \<and>
   \<not> exists (demo None) (OPEN_JTALK_DICT_DIR (module_init (demo None) []))
       (world (module_init (demo None) [])) \<and>
   filter is_download (trace (snd (perform (demo None)
       (Tts (PyStr ''a'') (PyFloat 2) (PyFloat 0) False) (module_init (demo None) [])))) =
     [Urlretrieve DICT_URL ''/pkg/dic.tar.gz''] \<and>
   \<not> analyzer_backed (Synthesize (PyList []) (PyFloat 1) (PyFloat 0)) \<and>
   filter is_download (trace (snd (perform (demo None)
       (Synthesize (PyList []) (PyFloat 1) (PyFloat 0)) (module_init (demo None) [])))) = [] \<and>
   exists (demo None) (OPEN_JTALK_DICT_DIR first_run) (world first_run) \<and>
   global_jtalk first_run \<noteq> None \<and>
   filter is_download (trace (run (demo None) more_calls first_run)) =
     [Urlretrieve DICT_URL ''/pkg/dic.tar.gz''] \<and>
   fst (extract_dic (demo None) (module_init (demo None) [])) = Inr () \<and>
   OPEN_JTALK_DICT_DIR (snd (extract_dic (demo None) (module_init (demo None) []))) =
     ''/pkg/open_jtalk_dic_utf_8-1.11''"
proof -
  have s: "exists (demo None) (OPEN_JTALK_DICT_DIR first_run) (world first_run)"
    "global_jtalk first_run \<noteq> None"
    "filter is_download (trace first_run) = [Urlretrieve DICT_URL ''/pkg/dic.tar.gz'']"
    by (simp_all add: first_run_def model_defs demo_def)
  have i: "\<not> exists (demo None) (OPEN_JTALK_DICT_DIR (module_init (demo None) []))
       (world (module_init (demo None) []))"
    "fst (extract_dic (demo None) (module_init (demo None) [])) = Inr ()"
    "pkg_dir (demo None) = ''/pkg''" "default_dict_dir (demo None) = ''/pkg/open_jtalk_dic_utf_8-1.11''"
    by (simp_all add: model_defs demo_def)
  from s i
    provisioning_attempts [of "Tts (PyStr ''a'') (PyFloat 2) (PyFloat 0) False"
      "module_init (demo None) []" "demo None" more_calls "()"]
    provisioning_attempts [of "Synthesize (PyList []) (PyFloat 1) (PyFloat 0)"
      "module_init (demo None) []" "demo None" more_calls "()"]
    provisioning_attempts [of "Tts (PyStr ''a'') (PyFloat 2) (PyFloat 0) False"
      first_run "demo None" more_calls "()"]
  show ?thesis by (simp add: resource_filename_def)
qed

text \<open>
  C5 as stated fails: on an empty disk, where the dictionary directory does not exist,
  \<^verbatim>\<open>synthesize\<close> returns its waveform and triggers no provisioning attempt.
\<close>

theorem synthesize_never_provisions:
  "\<not> exists (demo None) (OPEN_JTALK_DICT_DIR (module_init (demo None) []))
       (world (module_init (demo None) [])) \<and>
   fst (synthesize (demo None) (PyList [PyStr ''x'']) (PyFloat 1) (PyFloat 0)
          (module_init (demo None) [])) =
     Inr (PyTuple [PyList [PyFloat 1, PyFloat 0, PyList [PyStr ''x'']], PyInt 48000]) \<and>
   filter is_download (trace (snd (synthesize (demo None) (PyList [PyStr ''x'']) (PyFloat 1)
          (PyFloat 0) (module_init (demo None) [])))) = []"
  by (simp add: model_defs demo_def)

section \<open>The dictionary-directory override\<close>

text \<open>
  C1, as the code has it. When the environment variable is set and the path it names
  exists, no sequence of calls downloads the archive. When the path it names does not
  exist, the override does not skip provisioning: the first call that goes through the
  analyzer makes one download attempt, and an analyzer it constructs is constructed on the
  packaged dictionary directory, never on the overridden path.
\<close>

theorem override_and_provisioning:
  "(environ_OPEN_JTALK_DICT_DIR X = Some p \<and> exists X p w \<longrightarrow>
      filter is_download (trace (run X cs (module_init X w))) = []) \<and>
   (environ_OPEN_JTALK_DICT_DIR X = Some p \<and> \<not> exists X p w \<and> analyzer_backed c \<longrightarrow>
      filter is_download (trace (snd (perform X c (module_init X w)))) =
        [Urlretrieve DICT_URL (resource_filename (pkg_dir X) ''dic.tar.gz'')] \<and>
      set (filter is_new_jtalk (trace (snd (perform X c (module_init X w))))) \<subseteq>
        {New_OpenJTalk (default_dict_dir X) True, New_OpenJTalk (default_dict_dir X) False})"
proof (intro conjI impI)
  assume "environ_OPEN_JTALK_DICT_DIR X = Some p \<and> exists X p w"
  then have "exists X (OPEN_JTALK_DICT_DIR (module_init X w)) (world (module_init X w))"
    by (simp add: module_init_def)
  from no_download_when_present [OF this, of cs]
  show "filter is_download (trace (run X cs (module_init X w))) = []" by simp
next
  assume a: "environ_OPEN_JTALK_DICT_DIR X = Some p \<and> \<not> exists X p w \<and> analyzer_backed c"
  then have "\<not> exists X (OPEN_JTALK_DICT_DIR (module_init X w)) (world (module_init X w))"
    by (simp add: module_init_def)
  with a first_call_provisions [of c "module_init X w" X]
  have p: "provisioned_once X [] [] (snd (perform X c (module_init X w)))" by simp
  then show "filter is_download (trace (snd (perform X c (module_init X w)))) =
        [Urlretrieve DICT_URL (resource_filename (pkg_dir X) ''dic.tar.gz'')]"
    by (simp add: provisioned_once_def the_download_def)
  from p show "set (filter is_new_jtalk (trace (snd (perform X c (module_init X w))))) \<subseteq>
        {New_OpenJTalk (default_dict_dir X) True, New_OpenJTalk (default_dict_dir X) False}"
    unfolding provisioned_once_def by (elim conjE disjE) simp_all
qed

text \<open>
  C1 on the concrete platform, with the variable set to \<^verbatim>\<open>/opt/dic\<close>: five calls on a
  disk that holds the path, and \<^verbatim>\<open>run_frontend\<close> on a disk that does not.
\<close>

theorem override_and_provisioning_witness:
  "environ_OPEN_JTALK_DICT_DIR (demo (Some ''/opt/dic'')) = Some ''/opt/dic'' \<and>
   exists (demo (Some ''/opt/dic'')) ''/opt/dic'' [''/opt/dic''] \<and>
   filter is_download (trace (run (demo (Some ''/opt/dic'')) more_calls
      (module_init (demo (Some ''/opt/dic'')) [''/opt/dic'']))) = [] \<and>
   \<not> exists (demo (Some ''/opt/dic'')) ''/opt/dic'' [] \<and>
   analyzer_backed (Run_frontend (PyStr ''a'')) \<and>
   filter is_download (trace (snd (perform (demo (Some ''/opt/dic'')) (Run_frontend (PyStr ''a''))
      (module_init (demo (Some ''/opt/dic'')) [])))) = [Urlretrieve DICT_URL ''/pkg/dic.tar.gz''] \<and>
   set (filter is_new_jtalk (trace (snd (perform (demo (Some ''/opt/dic''))
      (Run_frontend (PyStr ''a'')) (module_init (demo (Some ''/opt/dic'')) []))))) \<subseteq>
     {New_OpenJTalk ''/pkg/open_jtalk_dic_utf_8-1.11'' True,
      New_OpenJTalk ''/pkg/open_jtalk_dic_utf_8-1.11'' False}"
proof -
  have i: "environ_OPEN_JTALK_DICT_DIR (demo (Some ''/opt/dic'')) = Some ''/opt/dic''"
    "exists (demo (Some ''/opt/dic'')) ''/opt/dic'' [''/opt/dic'']"
    "\<not> exists (demo (Some ''/opt/dic'')) ''/opt/dic'' []"
    "pkg_dir (demo (Some ''/opt/dic'')) = ''/pkg''"
    "default_dict_dir (demo (Some ''/opt/dic'')) = ''/pkg/open_jtalk_dic_utf_8-1.11''"
    by (simp_all add: demo_def default_dict_dir_def resource_filename_def)
  from i
    override_and_provisioning [of "demo (Some ''/opt/dic'')" "''/opt/dic''" "[''/opt/dic'']"
      more_calls "Run_frontend (PyStr ''a'')"]
    override_and_provisioning [of "demo (Some ''/opt/dic'')" "''/opt/dic''" "[]"
      more_calls "Run_frontend (PyStr ''a'')"]
  show ?thesis by (simp add: resource_filename_def)
qed

text \<open>
  C1 as stated fails: with the variable set to a path that does not exist,
  \<^verbatim>\<open>run_frontend\<close> downloads the archive, constructs the analyzer on the packaged
  directory and returns; nothing fails at the construction of the handle.
\<close>

theorem override_still_downloads:
  "environ_OPEN_JTALK_DICT_DIR (demo (Some ''/opt/dic'')) = Some ''/opt/dic'' \<and>
   \<not> exists (demo (Some ''/opt/dic'')) ''/opt/dic'' [] \<and>
   fst (run_frontend (demo (Some ''/opt/dic'')) (PyStr ''a'')
          (module_init (demo (Some ''/opt/dic'')) [])) = Inr (PyList [PyStr ''a'']) \<and>
   filter is_download (trace (snd (run_frontend (demo (Some ''/opt/dic'')) (PyStr ''a'')
          (module_init (demo (Some ''/opt/dic'')) [])))) =
     [Urlretrieve DICT_URL ''/pkg/dic.tar.gz''] \<and>
   filter is_new_jtalk (trace (snd (run_frontend (demo (Some ''/opt/dic'')) (PyStr ''a'')
          (module_init (demo (Some ''/opt/dic'')) [])))) =
     [New_OpenJTalk ''/pkg/open_jtalk_dic_utf_8-1.11'' True]"
  by (simp add: model_defs demo_def)

section \<open>The accent estimator without its package\<close>

lemma guard_marine_absent:
  "global_marine s = None \<Longrightarrow> import_Predictor X (world s) = Some e \<Longrightarrow>
   guard_marine X s = (Inl install_marine, s)"
  by (simp add: guard_marine_def)

lemma marine_stays_unbound:
  assumes "\<And>w. import_Predictor X w \<noteq> None"
  shows "global_marine (run X cs (module_init X w)) = None"
proof -
  have "marine_unbound (module_init X w)" by (simp add: marine_unbound_def)
  from run_keeps [OF tolerant_marine_unbound marine_unbound_guard_jtalk
      marine_unbound_guard_htsengine marine_unbound_guard_marine [OF assms] this, where cs = cs]
  show ?thesis by (simp add: marine_unbound_def)
qed

text \<open>
  C6. When the package \<^verbatim>\<open>marine\<close> is absent, \<^verbatim>\<open>estimate_accent\<close> raises the
  \<^verbatim>\<open>ImportError\<close> whose message names the install step, whatever exception the import
  itself raised, and changes nothing: in a state with no predictor bound where the import
  raises, and so in every state a run can reach on a platform where the import never
  succeeds.
\<close>

theorem missing_marine_guidance:
  "(global_marine s = None \<and> import_Predictor X (world s) = Some e \<longrightarrow>
      estimate_accent X njd_features s = (Inl install_marine, s)) \<and>
   ((\<forall>w. import_Predictor X w \<noteq> None) \<longrightarrow>
      estimate_accent X njd_features (run X cs (module_init X w0)) =
        (Inl install_marine, run X cs (module_init X w0))) \<and>
   exc_class install_marine = ''ImportError'' \<and>
   exc_msg install_marine = ''Please install marine by `pip install pyopenjtalk[marine]`''"
proof (intro conjI impI)
  assume "global_marine s = None \<and> import_Predictor X (world s) = Some e"
  then show "estimate_accent X njd_features s = (Inl install_marine, s)"
    by (simp add: estimate_accent_def py_bind_def guard_marine_absent)
next
  assume a: "\<forall>w. import_Predictor X w \<noteq> None"
  let ?s = "run X cs (module_init X w0)"
  from a have "global_marine ?s = None" by (simp add: marine_stays_unbound)
  moreover from a obtain e where "import_Predictor X (world ?s) = Some e" by auto
  ultimately show "estimate_accent X njd_features ?s = (Inl install_marine, ?s)"
    by (simp add: estimate_accent_def py_bind_def guard_marine_absent)
qed (simp_all add: install_marine_def)

text \<open>
  C6 on the concrete platform, on a disk without \<^verbatim>\<open>marine\<close>, and after five calls on
  the platform where \<^verbatim>\<open>marine\<close> cannot be imported at all.
\<close>

theorem missing_marine_guidance_witness:
  "global_marine (module_init (demo None) []) = None \<and>
   import_Predictor (demo None) (world (module_init (demo None) [])) = Some no_marine \<and>
   estimate_accent (demo None) (PyList [])  (module_init (demo None) []) =
     (Inl (PyExc ''ImportError'' ''Please install marine by `pip install pyopenjtalk[marine]`''),
      module_init (demo None) []) \<and>
   (\<forall>w. import_Predictor (demo_offline None) w \<noteq> None) \<and>
   fst (estimate_accent (demo_offline None) (PyList [])
         (run (demo_offline None) more_calls (module_init (demo_offline None) []))) =
     Inl (PyExc ''ImportError'' ''Please install marine by `pip install pyopenjtalk[marine]`'')"
proof -
  have i: "global_marine (module_init (demo None) []) = None"
    "import_Predictor (demo None) (world (module_init (demo None) [])) = Some no_marine"
    "\<forall>w. import_Predictor (demo_offline None) w \<noteq> None"
    by (simp_all add: demo_def demo_offline_def)
  from i
    missing_marine_guidance [of "module_init (demo None) []" "demo None" no_marine "PyList []"
      more_calls "[]"]
    missing_marine_guidance [of "module_init (demo None) []" "demo_offline None" no_marine
      "PyList []" more_calls "[]"]
  show ?thesis by (simp add: install_marine_def)
qed

section \<open>What a call of \<^verbatim>\<open>synthesize\<close> does to the synthesizer\<close>

text \<open>
  A call of \<^verbatim>\<open>synthesize\<close> that returns has made its four method calls in order; one
  that raises has stopped on the way.
\<close>

lemma synthesize_outcome:
  "triple (\<lambda>s. s = s0) (synthesize X labels speed half_tone)
     (synthesis_at X s0
        [Hts_get_sampling_frequency, Hts_set_speed speed, Hts_add_half_tone half_tone,
         Hts_synthesize (unwrap_labels labels)])
     (synthesis_stopped X s0
        [Hts_get_sampling_frequency, Hts_set_speed speed, Hts_add_half_tone half_tone,
         Hts_synthesize (unwrap_labels labels)])"
proof -
  let ?c = "[Hts_get_sampling_frequency, Hts_set_speed speed, Hts_add_half_tone half_tone,
         Hts_synthesize (unwrap_labels labels)]"
  let ?E = "synthesis_stopped X s0 ?c"
  have g: "triple (\<lambda>s. s = s0) (guard_htsengine X) (synthesis_at X s0 []) ?E"
    by (rule guard_htsengine_triple)
       (simp_all add: synthesis_at_def synthesis_stopped_def)
  have 1: "triple (synthesis_at X s0 []) (htsengine_call Hts_get_sampling_frequency f)
             (synthesis_at X s0 [Hts_get_sampling_frequency]) ?E" for f
    by (rule htsengine_call_triple)
       (auto simp: synthesis_at_def synthesis_stopped_def)
  have 2: "triple (synthesis_at X s0 [Hts_get_sampling_frequency])
             (htsengine_call (Hts_set_speed speed) f)
             (synthesis_at X s0 [Hts_get_sampling_frequency, Hts_set_speed speed]) ?E" for f
    by (rule htsengine_call_triple)
       (auto simp: synthesis_at_def synthesis_stopped_def)
  have 3: "triple (synthesis_at X s0 [Hts_get_sampling_frequency, Hts_set_speed speed])
             (htsengine_call (Hts_add_half_tone half_tone) f)
             (synthesis_at X s0 [Hts_get_sampling_frequency, Hts_set_speed speed,
                Hts_add_half_tone half_tone]) ?E" for f
    by (rule htsengine_call_triple)
       (auto simp: synthesis_at_def synthesis_stopped_def)
  have 4: "triple (synthesis_at X s0 [Hts_get_sampling_frequency, Hts_set_speed speed,
                Hts_add_half_tone half_tone])
             (htsengine_call (Hts_synthesize (unwrap_labels labels)) f)
             (synthesis_at X s0 ?c) ?E" for f
    by (rule htsengine_call_triple)
       (auto simp: synthesis_at_def synthesis_stopped_def)
  have 5: "triple (synthesis_at X s0 ?c) (py_return v) (synthesis_at X s0 ?c) ?E" for v
    by (rule triple_return) simp
  show ?thesis unfolding synthesize_def Let_def
    by (intro triple_bind [OF g] triple_bind [OF 1] triple_bind [OF 2] triple_bind [OF 3]
          triple_bind [OF 4] 5)
qed

lemma synthesize_state:
  "synthesis_stopped X s
     [Hts_get_sampling_frequency, Hts_set_speed speed, Hts_add_half_tone half_tone,
      Hts_synthesize (unwrap_labels labels)]
     (snd (synthesize X labels speed half_tone s))"
  "fst (synthesize X labels speed half_tone s) = Inr r \<Longrightarrow>
   synthesis_at X s
     [Hts_get_sampling_frequency, Hts_set_speed speed, Hts_add_half_tone half_tone,
      Hts_synthesize (unwrap_labels labels)]
     (snd (synthesize X labels speed half_tone s))"
proof -
  let ?c = "[Hts_get_sampling_frequency, Hts_set_speed speed, Hts_add_half_tone half_tone,
      Hts_synthesize (unwrap_labels labels)]"
  note o = synthesize_outcome [of s X labels speed half_tone]
  have "synthesis_at X s ?c s' \<Longrightarrow> synthesis_stopped X s ?c s'" for s'
    by (simp add: synthesis_stopped_def)
  with triple_state [OF o, of s]
  show "synthesis_stopped X s ?c (snd (synthesize X labels speed half_tone s))" by auto
  assume "fst (synthesize X labels speed half_tone s) = Inr r"
  then have "synthesize X labels speed half_tone s =
      (Inr r, snd (synthesize X labels speed half_tone s))"
    by (cases "synthesize X labels speed half_tone s") simp
  from triple_Inr [OF o _ this]
  show "synthesis_at X s ?c (snd (synthesize X labels speed half_tone s))" by simp
qed

lemma synthesize_events:
  "events_of (synthesize X labels speed half_tone) s \<in>
     {[New_HTSEngine (DEFAULT_HTS_VOICE X) False],
      [Hts_get_sampling_frequency],
      [Hts_get_sampling_frequency, Hts_set_speed speed],
      [Hts_get_sampling_frequency, Hts_set_speed speed, Hts_add_half_tone half_tone],
      [Hts_get_sampling_frequency, Hts_set_speed speed, Hts_add_half_tone half_tone,
       Hts_synthesize (unwrap_labels labels)],
      [New_HTSEngine (DEFAULT_HTS_VOICE X) True, Hts_get_sampling_frequency],
      [New_HTSEngine (DEFAULT_HTS_VOICE X) True, Hts_get_sampling_frequency,
       Hts_set_speed speed],
      [New_HTSEngine (DEFAULT_HTS_VOICE X) True, Hts_get_sampling_frequency,
       Hts_set_speed speed, Hts_add_half_tone half_tone],
      [New_HTSEngine (DEFAULT_HTS_VOICE X) True, Hts_get_sampling_frequency,
       Hts_set_speed speed, Hts_add_half_tone half_tone,
       Hts_synthesize (unwrap_labels labels)]}"
  using synthesize_state(1) [of X s speed half_tone labels]
  unfolding synthesis_stopped_def synthesis_at_def events_of_def
  by (elim disjE conjE) simp_all

lemma synthesize_returned_events:
  assumes "fst (synthesize X labels speed half_tone s) = Inr r"
  shows "events_of (synthesize X labels speed half_tone) s \<in>
     {[Hts_get_sampling_frequency, Hts_set_speed speed, Hts_add_half_tone half_tone,
       Hts_synthesize (unwrap_labels labels)],
      [New_HTSEngine (DEFAULT_HTS_VOICE X) True, Hts_get_sampling_frequency,
       Hts_set_speed speed, Hts_add_half_tone half_tone,
       Hts_synthesize (unwrap_labels labels)]}"
  using synthesize_state(2) [OF assms]
  unfolding synthesis_at_def events_of_def
  by (elim disjE conjE) simp_all

lemma synthesize_frame:
  "OPEN_JTALK_DICT_DIR (snd (synthesize X labels speed half_tone s)) = OPEN_JTALK_DICT_DIR s"
  "global_jtalk (snd (synthesize X labels speed half_tone s)) = global_jtalk s"
  "global_marine (snd (synthesize X labels speed half_tone s)) = global_marine s"
  "world (snd (synthesize X labels speed half_tone s)) = world s"
  using synthesize_state(1) [of X s speed half_tone labels]
  unfolding synthesis_stopped_def synthesis_at_def
  by (elim disjE conjE; simp)+

lemma synthesize_passes:
  assumes "Hts_synthesize l \<in> set (events_of (synthesize X labels speed half_tone) s)"
  shows "l = unwrap_labels labels"
  using synthesize_events [of X labels speed half_tone s] assms
  by (elim insertE) auto

text \<open>The call on a cached synthesizer whose first three methods return.\<close>

lemma synthesize_cached:
  assumes "global_htsengine s = Some h0"
    and "hts_get_sampling_frequency X h0 = (Inr sr, h1)"
    and "hts_set_speed X h1 speed = (Inr u, h2)"
    and "hts_add_half_tone X h2 half_tone = (Inr v, h3)"
  shows "synthesize X labels speed half_tone s =
     ((case fst (hts_synthesize X h3 (unwrap_labels labels)) of
         Inl e \<Rightarrow> Inl e | Inr wave \<Rightarrow> Inr (PyTuple [wave, sr])),
      s\<lparr>global_htsengine := Some (snd (hts_synthesize X h3 (unwrap_labels labels))),
        trace := trace s @
          [Hts_get_sampling_frequency, Hts_set_speed speed, Hts_add_half_tone half_tone,
           Hts_synthesize (unwrap_labels labels)]\<rparr>)"
  using assms
  by (simp add: synthesize_def guard_htsengine_def htsengine_call_def py_bind_def
        py_return_def Let_def split: sum.splits)

text \<open>
  C7. Every call of \<^verbatim>\<open>synthesize\<close> sets the speed and the half-tone of the cached
  synthesizer to its own arguments before the native synthesis runs, and changes no other
  configuration of the handle. On a cached synthesizer whose three earlier methods return,
  the native synthesis runs on the instance as \<^verbatim>\<open>set_speed(speed)\<close> and then
  \<^verbatim>\<open>add_half_tone(half_tone)\<close> left it, and the instance it leaves is the new cached
  one. In every call in which the native synthesis is invoked, and in every call that
  returns, the trace of the call ends with \<^verbatim>\<open>get_sampling_frequency\<close>,
  \<^verbatim>\<open>set_speed(speed)\<close>, \<^verbatim>\<open>add_half_tone(half_tone)\<close>, \<^verbatim>\<open>synthesize\<close>. No call
  invokes anything on the handle but these four methods and, on an unbound slot, the
  constructor; and no call changes the dictionary directory, the analyzer, the predictor
  or the world.
\<close>

theorem synthesize_sets_then_synthesizes:
  "(global_htsengine s = Some h0 \<and>
    hts_get_sampling_frequency X h0 = (Inr sr, h1) \<and>
    hts_set_speed X h1 speed = (Inr u, h2) \<and>
    hts_add_half_tone X h2 half_tone = (Inr v, h3) \<longrightarrow>
      fst (synthesize X labels speed half_tone s) =
        (case fst (hts_synthesize X h3 (unwrap_labels labels)) of
           Inl e \<Rightarrow> Inl e | Inr wave \<Rightarrow> Inr (PyTuple [wave, sr])) \<and>
      global_htsengine (snd (synthesize X labels speed half_tone s)) =
        Some (snd (hts_synthesize X h3 (unwrap_labels labels)))) \<and>
   (Hts_synthesize l \<in> set (events_of (synthesize X labels speed half_tone) s) \<longrightarrow>
      (\<exists>c. events_of (synthesize X labels speed half_tone) s =
             c @ [Hts_get_sampling_frequency, Hts_set_speed speed,
                  Hts_add_half_tone half_tone, Hts_synthesize l])) \<and>
   (fst (synthesize X labels speed half_tone s) = Inr r \<longrightarrow>
      (\<exists>c l. events_of (synthesize X labels speed half_tone) s =
             c @ [Hts_get_sampling_frequency, Hts_set_speed speed,
                  Hts_add_half_tone half_tone, Hts_synthesize l])) \<and>
   set (events_of (synthesize X labels speed half_tone) s) \<subseteq>
     {New_HTSEngine (DEFAULT_HTS_VOICE X) True, New_HTSEngine (DEFAULT_HTS_VOICE X) False,
      Hts_get_sampling_frequency, Hts_set_speed speed, Hts_add_half_tone half_tone,
      Hts_synthesize (unwrap_labels labels)} \<and>
   OPEN_JTALK_DICT_DIR (snd (synthesize X labels speed half_tone s)) = OPEN_JTALK_DICT_DIR s \<and>
   global_jtalk (snd (synthesize X labels speed half_tone s)) = global_jtalk s \<and>
   global_marine (snd (synthesize X labels speed half_tone s)) = global_marine s \<and>
   world (snd (synthesize X labels speed half_tone s)) = world s"
proof (intro conjI impI)
  assume "global_htsengine s = Some h0 \<and>
    hts_get_sampling_frequency X h0 = (Inr sr, h1) \<and>
    hts_set_speed X h1 speed = (Inr u, h2) \<and>
    hts_add_half_tone X h2 half_tone = (Inr v, h3)"
  then have c: "synthesize X labels speed half_tone s =
     ((case fst (hts_synthesize X h3 (unwrap_labels labels)) of
         Inl e \<Rightarrow> Inl e | Inr wave \<Rightarrow> Inr (PyTuple [wave, sr])),
      s\<lparr>global_htsengine := Some (snd (hts_synthesize X h3 (unwrap_labels labels))),
        trace := trace s @
          [Hts_get_sampling_frequency, Hts_set_speed speed, Hts_add_half_tone half_tone,
           Hts_synthesize (unwrap_labels labels)]\<rparr>)"
    using synthesize_cached [of s h0 X sr h1 speed u h2 half_tone v h3 labels] by blast
  from c show "fst (synthesize X labels speed half_tone s) =
        (case fst (hts_synthesize X h3 (unwrap_labels labels)) of
           Inl e \<Rightarrow> Inl e | Inr wave \<Rightarrow> Inr (PyTuple [wave, sr]))" by simp
  from c show "global_htsengine (snd (synthesize X labels speed half_tone s)) =
        Some (snd (hts_synthesize X h3 (unwrap_labels labels)))" by simp
next
  assume "Hts_synthesize l \<in> set (events_of (synthesize X labels speed half_tone) s)"
  with synthesize_events [of X labels speed half_tone s]
  show "\<exists>c. events_of (synthesize X labels speed half_tone) s =
             c @ [Hts_get_sampling_frequency, Hts_set_speed speed,
                  Hts_add_half_tone half_tone, Hts_synthesize l]"
    by (elim insertE) auto
next
  assume "fst (synthesize X labels speed half_tone s) = Inr r"
  from synthesize_returned_events [OF this]
  show "\<exists>c l. events_of (synthesize X labels speed half_tone) s =
             c @ [Hts_get_sampling_frequency, Hts_set_speed speed,
                  Hts_add_half_tone half_tone, Hts_synthesize l]"
    by (elim insertE) auto
next
  from synthesize_events [of X labels speed half_tone s]
  show "set (events_of (synthesize X labels speed half_tone) s) \<subseteq>
     {New_HTSEngine (DEFAULT_HTS_VOICE X) True, New_HTSEngine (DEFAULT_HTS_VOICE X) False,
      Hts_get_sampling_frequency, Hts_set_speed speed, Hts_add_half_tone half_tone,
      Hts_synthesize (unwrap_labels labels)}"
    by (elim insertE) auto
qed (simp_all add: synthesize_frame)

text \<open>
  C7 on the concrete platform: the cached synthesizer has speed 2 and half-tone 0; a call
  with speed 1 and half-tone 3 synthesizes at speed 1 and half-tone 3 and leaves them set.
\<close>

theorem synthesize_sets_then_synthesizes_witness:
  "global_htsengine first_run = Some (PyFloat 2, PyFloat 0) \<and>
   hts_get_sampling_frequency (demo None) (PyFloat 2, PyFloat 0) =
     (Inr (PyInt 48000), (PyFloat 2, PyFloat 0)) \<and>
   hts_set_speed (demo None) (PyFloat 2, PyFloat 0) (PyFloat 1) =
     (Inr PyNone, (PyFloat 1, PyFloat 0)) \<and>
   hts_add_half_tone (demo None) (PyFloat 1, PyFloat 0) (PyFloat 3) =
     (Inr PyNone, (PyFloat 1, PyFloat 3)) \<and>
   fst (synthesize (demo None) (PyList [PyStr ''b'']) (PyFloat 1) (PyFloat 3) first_run) =
     Inr (PyTuple [PyList [PyFloat 1, PyFloat 3, PyList [PyStr ''b'']], PyInt 48000]) \<and>
   global_htsengine
     (snd (synthesize (demo None) (PyList [PyStr ''b'']) (PyFloat 1) (PyFloat 3) first_run)) =
     Some (PyFloat 1, PyFloat 3) \<and>
   Hts_synthesize (PyList [PyStr ''b'']) \<in>
     set (events_of (synthesize (demo None) (PyList [PyStr ''b'']) (PyFloat 1) (PyFloat 3))
            first_run) \<and>
   events_of (synthesize (demo None) (PyList [PyStr ''b'']) (PyFloat 1) (PyFloat 3)) first_run =
     [Hts_get_sampling_frequency, Hts_set_speed (PyFloat 1), Hts_add_half_tone (PyFloat 3),
      Hts_synthesize (PyList [PyStr ''b''])]"
proof -
  have e: "events_of (synthesize (demo None) (PyList [PyStr ''b'']) (PyFloat 1) (PyFloat 3))
      first_run =
     [Hts_get_sampling_frequency, Hts_set_speed (PyFloat 1), Hts_add_half_tone (PyFloat 3),
      Hts_synthesize (PyList [PyStr ''b''])]"
    by (simp add: events_of_def first_run_def model_defs demo_def)
  have h: "global_htsengine first_run = Some (PyFloat 2, PyFloat 0)"
    by (simp add: first_run_def model_defs demo_def)
  have n: "hts_get_sampling_frequency (demo None) (PyFloat 2, PyFloat 0) =
     (Inr (PyInt 48000), (PyFloat 2, PyFloat 0))"
    "hts_set_speed (demo None) (PyFloat 2, PyFloat 0) (PyFloat 1) =
     (Inr PyNone, (PyFloat 1, PyFloat 0))"
    "hts_add_half_tone (demo None) (PyFloat 1, PyFloat 0) (PyFloat 3) =
     (Inr PyNone, (PyFloat 1, PyFloat 3))"
    "hts_synthesize (demo None) (PyFloat 1, PyFloat 3) (PyList [PyStr ''b'']) =
     (Inr (PyList [PyFloat 1, PyFloat 3, PyList [PyStr ''b'']]), (PyFloat 1, PyFloat 3))"
    by (simp_all add: demo_def)
  from e h n
    synthesize_sets_then_synthesizes [where s = first_run and X = "demo None"
      and ?h0.0 = "(PyFloat 2, PyFloat 0)" and sr = "PyInt 48000"
      and ?h1.0 = "(PyFloat 2, PyFloat 0)" and speed = "PyFloat 1" and u = PyNone
      and ?h2.0 = "(PyFloat 1, PyFloat 0)" and half_tone = "PyFloat 3" and v = PyNone
      and ?h3.0 = "(PyFloat 1, PyFloat 3)" and labels = "PyList [PyStr ''b'']"
      and l = "PyList [PyStr ''b'']"]
  show ?thesis by (simp add: unwrap_labels_def)
qed

text \<open>
  C9. \<^verbatim>\<open>synthesize\<close> unwraps its first argument only when it is a tuple of length
  exactly 2: the label argument the native synthesizer receives is the second element of
  such a tuple, the tuple itself when its length is not 2, and the argument itself when it
  is no tuple (a list whose second element is a label list included). A call that returns
  has handed a label argument to the native synthesizer.
\<close>

theorem labels_unwrapped_only_for_pairs:
  "(Hts_synthesize l \<in> set (events_of (synthesize X (PyTuple [a, b]) speed half_tone) s) \<longrightarrow>
      l = b) \<and>
   (length xs \<noteq> 2 \<and>
    Hts_synthesize l \<in> set (events_of (synthesize X (PyTuple xs) speed half_tone) s) \<longrightarrow>
      l = PyTuple xs) \<and>
   ((\<forall>xs. labels \<noteq> PyTuple xs) \<and>
    Hts_synthesize l \<in> set (events_of (synthesize X labels speed half_tone) s) \<longrightarrow>
      l = labels) \<and>
   (fst (synthesize X labels speed half_tone s) = Inr r \<longrightarrow>
      (\<exists>l. Hts_synthesize l \<in> set (events_of (synthesize X labels speed half_tone) s)))"
proof (intro conjI impI)
  assume "Hts_synthesize l \<in> set (events_of (synthesize X (PyTuple [a, b]) speed half_tone) s)"
  from synthesize_passes [OF this] show "l = b" by (simp add: unwrap_labels_def)
next
  assume "length xs \<noteq> 2 \<and>
    Hts_synthesize l \<in> set (events_of (synthesize X (PyTuple xs) speed half_tone) s)"
  with synthesize_passes [of l X "PyTuple xs" speed half_tone s]
  show "l = PyTuple xs" by (simp add: unwrap_labels_def)
next
  assume a: "(\<forall>xs. labels \<noteq> PyTuple xs) \<and>
    Hts_synthesize l \<in> set (events_of (synthesize X labels speed half_tone) s)"
  then have "unwrap_labels labels = labels"
    by (cases labels) (simp_all add: unwrap_labels_def)
  with a synthesize_passes [of l X labels speed half_tone s] show "l = labels" by simp
next
  assume "fst (synthesize X labels speed half_tone s) = Inr r"
  from synthesize_returned_events [OF this]
  show "\<exists>l. Hts_synthesize l \<in> set (events_of (synthesize X labels speed half_tone) s)"
    by (elim insertE) auto
qed

text \<open>
  C9 on the concrete platform: a pair, a triple, and a list of two elements whose second
  is a label list.
\<close>

theorem labels_unwrapped_only_for_pairs_witness:
  "Hts_synthesize (PyList [PyStr ''lab'']) \<in>
     set (events_of (synthesize (demo None) (PyTuple [PyStr ''x'', PyList [PyStr ''lab'']])
            (PyFloat 1) (PyFloat 0)) first_run) \<and>
   length [PyStr ''x'', PyList [PyStr ''lab''], PyNone] \<noteq> 2 \<and>
   Hts_synthesize (PyTuple [PyStr ''x'', PyList [PyStr ''lab''], PyNone]) \<in>
     set (events_of (synthesize (demo None)
            (PyTuple [PyStr ''x'', PyList [PyStr ''lab''], PyNone])
            (PyFloat 1) (PyFloat 0)) first_run) \<and>
   (\<forall>xs. PyList [PyStr ''x'', PyList [PyStr ''lab'']] \<noteq> PyTuple xs) \<and>
   Hts_synthesize (PyList [PyStr ''x'', PyList [PyStr ''lab'']]) \<in>
     set (events_of (synthesize (demo None) (PyList [PyStr ''x'', PyList [PyStr ''lab'']])
            (PyFloat 1) (PyFloat 0)) first_run) \<and>
   fst (synthesize (demo None) (PyList [PyStr ''x'', PyList [PyStr ''lab'']])
          (PyFloat 1) (PyFloat 0) first_run) =
     Inr (PyTuple [PyList [PyFloat 1, PyFloat 0, PyList [PyStr ''x'', PyList [PyStr ''lab'']]],
                   PyInt 48000])"
proof -
  have e: "events_of (synthesize (demo None) labels (PyFloat 1) (PyFloat 0)) first_run =
     [Hts_get_sampling_frequency, Hts_set_speed (PyFloat 1), Hts_add_half_tone (PyFloat 0),
      Hts_synthesize (unwrap_labels labels)]" for labels
    by (simp add: events_of_def first_run_def model_defs demo_def)
  have r: "fst (synthesize (demo None) (PyList [PyStr ''x'', PyList [PyStr ''lab'']])
          (PyFloat 1) (PyFloat 0) first_run) =
     Inr (PyTuple [PyList [PyFloat 1, PyFloat 0, PyList [PyStr ''x'', PyList [PyStr ''lab'']]],
                   PyInt 48000])"
    by (simp add: first_run_def model_defs demo_def)
  from e r
    labels_unwrapped_only_for_pairs [where X = "demo None" and s = first_run
      and speed = "PyFloat 1" and half_tone = "PyFloat 0"
      and a = "PyStr ''x''" and b = "PyList [PyStr ''lab'']"
      and xs = "[PyStr ''x'', PyList [PyStr ''lab''], PyNone]"
      and labels = "PyList [PyStr ''x'', PyList [PyStr ''lab'']]"
      and l = "PyList [PyStr ''x'', PyList [PyStr ''lab'']]"]
  show ?thesis by (simp add: unwrap_labels_def)
qed

section \<open>The state around \<^verbatim>\<open>make_label\<close>\<close>

text \<open>
  C8, as the code has it. Once the analyzer handle is cached, \<^verbatim>\<open>make_label\<close> is a
  function of the handle and of its feature list alone: it returns what the handle's
  native \<^verbatim>\<open>make_label\<close> returns for the list, it changes nothing but the handle's own
  internal state (and the trace records the one method call), and two states with the same
  cached handle give the same result. A call that finds no cached handle first runs the
  lazy initialization and the constructor, and only then the method.
\<close>

theorem make_label_cached:
  "(global_jtalk s = Some h \<longrightarrow>
      make_label X njd_features s =
        (fst (jt_make_label X h njd_features),
         s\<lparr>global_jtalk := Some (snd (jt_make_label X h njd_features)),
           trace := trace s @ [Jt_make_label njd_features]\<rparr>)) \<and>
   (global_jtalk s = Some h \<and> global_jtalk s' = Some h \<longrightarrow>
      fst (make_label X njd_features s) = fst (make_label X njd_features s')) \<and>
   (global_jtalk s = None \<longrightarrow>
      make_label X njd_features s =
        py_bind (lazy_init X) (\<lambda>_.
        py_bind (new_OpenJTalk X) (\<lambda>_.
        jtalk_call (Jt_make_label njd_features) (\<lambda>h. jt_make_label X h njd_features))) s)"
  by (simp add: make_label_def guard_jtalk_def jtalk_call_def py_bind_def
        split: prod.splits sum.splits)

text \<open>
  C8 on the concrete platform: on the cached analyzer, before and after five more calls,
  and on a fresh process whose disk holds the dictionary.
\<close>

theorem make_label_cached_witness:
  "global_jtalk first_run = Some ''/pkg/open_jtalk_dic_utf_8-1.11'' \<and>
   global_jtalk (run (demo None) more_calls first_run) = Some ''/pkg/open_jtalk_dic_utf_8-1.11'' \<and>
   make_label (demo None) (PyList [PyStr ''f'']) first_run =
     (Inr (PyList [PyStr ''f'']),
      first_run\<lparr>global_jtalk := Some ''/pkg/open_jtalk_dic_utf_8-1.11'',
                trace := trace first_run @ [Jt_make_label (PyList [PyStr ''f''])]\<rparr>) \<and>
   fst (make_label (demo None) (PyList [PyStr ''f'']) first_run) =
   fst (make_label (demo None) (PyList [PyStr ''f'']) (run (demo None) more_calls first_run)) \<and>
   global_jtalk (module_init (demo None) [''/pkg/open_jtalk_dic_utf_8-1.11'']) = None \<and>
   make_label (demo None) (PyList [PyStr ''f''])
     (module_init (demo None) [''/pkg/open_jtalk_dic_utf_8-1.11'']) =
     (Inr (PyList [PyStr ''f'']),
      (module_init (demo None) [''/pkg/open_jtalk_dic_utf_8-1.11''])
        \<lparr>global_jtalk := Some ''/pkg/open_jtalk_dic_utf_8-1.11'',
         trace := [New_OpenJTalk ''/pkg/open_jtalk_dic_utf_8-1.11'' True,
                   Jt_make_label (PyList [PyStr ''f''])]\<rparr>)"
proof -
  have u: "py_bind (lazy_init (demo None)) (\<lambda>_.
        py_bind (new_OpenJTalk (demo None)) (\<lambda>_.
        jtalk_call (Jt_make_label (PyList [PyStr ''f'']))
          (\<lambda>h. jt_make_label (demo None) h (PyList [PyStr ''f'']))))
        (module_init (demo None) [''/pkg/open_jtalk_dic_utf_8-1.11'']) =
     (Inr (PyList [PyStr ''f'']),
      (module_init (demo None) [''/pkg/open_jtalk_dic_utf_8-1.11''])
        \<lparr>global_jtalk := Some ''/pkg/open_jtalk_dic_utf_8-1.11'',
         trace := [New_OpenJTalk ''/pkg/open_jtalk_dic_utf_8-1.11'' True,
                   Jt_make_label (PyList [PyStr ''f''])]\<rparr>)"
    by (simp add: model_defs demo_def)
  have g: "global_jtalk first_run = Some ''/pkg/open_jtalk_dic_utf_8-1.11''"
    "global_jtalk (run (demo None) more_calls first_run) = Some ''/pkg/open_jtalk_dic_utf_8-1.11''"
    by (simp_all add: first_run_def more_calls_def model_defs demo_def)
  have j: "jt_make_label (demo None) ''/pkg/open_jtalk_dic_utf_8-1.11'' (PyList [PyStr ''f'']) =
     (Inr (PyList [PyStr ''f'']), ''/pkg/open_jtalk_dic_utf_8-1.11'')"
    by (simp add: demo_def)
  from g j u
    make_label_cached [where s = first_run and h = "''/pkg/open_jtalk_dic_utf_8-1.11''"
      and X = "demo None" and njd_features = "PyList [PyStr ''f'']"
      and s' = "run (demo None) more_calls first_run"]
    make_label_cached [where s = "module_init (demo None) [''/pkg/open_jtalk_dic_utf_8-1.11'']"
      and X = "demo None" and njd_features = "PyList [PyStr ''f'']"]
  show ?thesis by auto
qed

text \<open>
  C8 as stated fails: on a fresh process with an empty disk \<^verbatim>\<open>make_label\<close> downloads
  and extracts the dictionary, which changes the disk, and binds the analyzer; and with the
  network down the same call on the same feature list raises on an empty disk and returns
  on a disk that holds the dictionary.
\<close>

theorem make_label_initializes:
  "global_jtalk (module_init (demo None) []) = None \<and>
   world (module_init (demo None) []) = [] \<and>
   world (snd (make_label (demo None) (PyList [PyStr ''f'']) (module_init (demo None) []))) =
     [''/pkg/open_jtalk_dic_utf_8-1.11''] \<and>
   global_jtalk (snd (make_label (demo None) (PyList [PyStr ''f''])
     (module_init (demo None) []))) = Some ''/pkg/open_jtalk_dic_utf_8-1.11'' \<and>
   trace (snd (make_label (demo None) (PyList [PyStr ''f'']) (module_init (demo None) []))) =
     [Print (''Downloading: \"'' @ DICT_URL @ ''\"''),
      Urlretrieve DICT_URL ''/pkg/dic.tar.gz'',
      Print ''Extracting tar file /pkg/dic.tar.gz'',
      Tar_extractall ''/pkg/dic.tar.gz'' ''/pkg/'',
      Os_remove ''/pkg/dic.tar.gz'',
      New_OpenJTalk ''/pkg/open_jtalk_dic_utf_8-1.11'' True,
      Jt_make_label (PyList [PyStr ''f''])] \<and>
   fst (make_label demo_down (PyList [PyStr ''f'']) (module_init demo_down [])) =
     Inl (PyExc ''URLError'' ''network is unreachable'') \<and>
   fst (make_label demo_down (PyList [PyStr ''f''])
     (module_init demo_down [''/pkg/open_jtalk_dic_utf_8-1.11''])) = Inr (PyList [PyStr ''f''])"
  by (simp add: model_defs demo_def demo_down_def)

section \<open>What the handler in \<^verbatim>\<open>estimate_accent\<close> covers\<close>

text \<open>
  C10, as the code has it. On a call of \<^verbatim>\<open>estimate_accent\<close> that finds no predictor
  bound, any exception raised by the import of the predictor is replaced by the
  install-guidance \<^verbatim>\<open>ImportError\<close>. An exception raised by the constructor of the
  predictor is not caught: it propagates as raised. The later import of the converter is
  unguarded: its exception propagates as raised, on the call that has just bound the
  predictor and on every call that finds it bound.
\<close>

theorem accent_guard_scope:
  "(global_marine s = None \<and> import_Predictor X (world s) = Some e \<longrightarrow>
      estimate_accent X njd_features s = (Inl install_marine, s)) \<and>
   (global_marine s = None \<and> import_Predictor X (world s) = None \<and>
    Predictor X (world s) = Inl e \<longrightarrow>
      estimate_accent X njd_features s =
        (Inl e, s\<lparr>trace := trace s @ [New_Predictor False]\<rparr>)) \<and>
   (global_marine s = None \<and> import_Predictor X (world s) = None \<and>
    Predictor X (world s) = Inr h \<and> import_convert X (world s) = Some e \<longrightarrow>
      estimate_accent X njd_features s =
        (Inl e, s\<lparr>global_marine := Some h, trace := trace s @ [New_Predictor True]\<rparr>)) \<and>
   (global_marine s \<noteq> None \<and> import_convert X (world s) = Some e \<longrightarrow>
      estimate_accent X njd_features s = (Inl e, s))"
  by (simp add: estimate_accent_def guard_marine_def py_bind_def)

text \<open>
  C10 on the concrete platforms: \<^verbatim>\<open>marine\<close> absent; \<^verbatim>\<open>marine\<close> present without
  its model file; \<^verbatim>\<open>marine.utils\<close> missing, on the first call and on the second.
\<close>

theorem accent_guard_scope_witness:
  "global_marine (module_init (demo None) []) = None \<and>
   import_Predictor (demo None) [] = Some no_marine \<and>
   estimate_accent (demo None) (PyList []) (module_init (demo None) []) =
     (Inl install_marine, module_init (demo None) []) \<and>
   import_Predictor (demo None) [''marine''] = None \<and>
   Predictor (demo None) [''marine''] = Inl (PyExc ''FileNotFoundError'' ''marine/model'') \<and>
   estimate_accent (demo None) (PyList []) (module_init (demo None) [''marine'']) =
     (Inl (PyExc ''FileNotFoundError'' ''marine/model''),
      (module_init (demo None) [''marine''])\<lparr>trace := [New_Predictor False]\<rparr>) \<and>
   import_Predictor demo_partial [''marine'', ''marine/model''] = None \<and>
   Predictor demo_partial [''marine'', ''marine/model''] = Inr () \<and>
   import_convert demo_partial [''marine'', ''marine/model''] =
     Some (PyExc ''ModuleNotFoundError'' ''No module named marine.utils'') \<and>
   estimate_accent demo_partial (PyList []) (module_init demo_partial [''marine'', ''marine/model'']) =
     (Inl (PyExc ''ModuleNotFoundError'' ''No module named marine.utils''),
      (module_init demo_partial [''marine'', ''marine/model''])
        \<lparr>global_marine := Some (), trace := [New_Predictor True]\<rparr>) \<and>
   global_marine (run demo_partial [Estimate_accent (PyList [])]
     (module_init demo_partial [''marine'', ''marine/model''])) \<noteq> None \<and>
   fst (estimate_accent demo_partial (PyList [])
     (run demo_partial [Estimate_accent (PyList [])]
       (module_init demo_partial [''marine'', ''marine/model'']))) =
     Inl (PyExc ''ModuleNotFoundError'' ''No module named marine.utils'')"
proof -
  let ?s3 = "run demo_partial [Estimate_accent (PyList [])]
     (module_init demo_partial [''marine'', ''marine/model''])"
  have i: "import_Predictor (demo None) [] = Some no_marine"
    "import_Predictor (demo None) [''marine''] = None"
    "Predictor (demo None) [''marine''] = Inl (PyExc ''FileNotFoundError'' ''marine/model'')"
    "import_Predictor demo_partial [''marine'', ''marine/model''] = None"
    "Predictor demo_partial [''marine'', ''marine/model''] = Inr ()"
    "import_convert demo_partial [''marine'', ''marine/model''] =
       Some (PyExc ''ModuleNotFoundError'' ''No module named marine.utils'')"
    by (simp_all add: demo_def demo_partial_def)
  have s3: "global_marine ?s3 \<noteq> None" "world ?s3 = [''marine'', ''marine/model'']"
    by (simp_all add: model_defs demo_def demo_partial_def)
  from i s3
    accent_guard_scope [where s = "module_init (demo None) []" and X = "demo None"
      and e = no_marine and njd_features = "PyList []"]
    accent_guard_scope [where s = "module_init (demo None) [''marine'']" and X = "demo None"
      and e = "PyExc ''FileNotFoundError'' ''marine/model''" and njd_features = "PyList []"]
    accent_guard_scope [where s = "module_init demo_partial [''marine'', ''marine/model'']"
      and X = demo_partial and h = "()"
      and e = "PyExc ''ModuleNotFoundError'' ''No module named marine.utils''"
      and njd_features = "PyList []"]
    accent_guard_scope [where s = ?s3 and X = demo_partial
      and e = "PyExc ''ModuleNotFoundError'' ''No module named marine.utils''"
      and njd_features = "PyList []"]
  show ?thesis by simp
qed

text \<open>
  C10 as stated fails: when the import succeeds and the constructor of the predictor
  raises \<^verbatim>\<open>FileNotFoundError\<close>, \<^verbatim>\<open>estimate_accent\<close> raises that error, not the
  install-guidance \<^verbatim>\<open>ImportError\<close>.
\<close>

theorem constructor_failure_not_masked:
  "global_marine (module_init (demo None) [''marine'']) = None \<and>
   import_Predictor (demo None) (world (module_init (demo None) [''marine''])) = None \<and>
   Predictor (demo None) (world (module_init (demo None) [''marine''])) =
     Inl (PyExc ''FileNotFoundError'' ''marine/model'') \<and>
   fst (estimate_accent (demo None) (PyList []) (module_init (demo None) [''marine''])) =
     Inl (PyExc ''FileNotFoundError'' ''marine/model'') \<and>
   PyExc ''FileNotFoundError'' ''marine/model'' \<noteq> install_marine"
  by (simp add: model_defs demo_def install_marine_def)

end
